theory Spec2Isabelle
  imports Complex_Main "HOL-Library.Log_Nat"
begin

section \<open>JavaScript values, configuration objects and library calls\<close>

text \<open>
  The script is wiring code: it queries the DOM, builds object literals and hands them to
  the GSAP library. The model keeps exactly that. A DOM node is an identity, a JavaScript
  value is a tagged union, an object literal is the list of its key/value pairs in source
  order, and every arrow function of the source is one constructor of \<open>closure\<close>
  holding the variables the arrow function captures. A function value that is handed in
  from outside the script is \<open>ExternFn\<close>: the script can call it, and its body is
  not part of the script, so it comes with what a call of it does: it returns, it throws,
  or it is a class constructor, which has \<open>typeof\<close> \<open>'function'\<close> and
  cannot be called without \<open>new\<close>. A number is the real it denotes and a decimal
  literal stands for its value; where the script multiplies, the product is rounded as
  binary64 arithmetic rounds it (section Numbers).
\<close>

datatype behaviour = Returns | Throws | ClassConstructor

type_synonym elem = nat

datatype js_value =
    Undefined
  | Null
  | JBool bool
  | JNum real
  | JStr string
  | Elem elem
  | ElemList "elem list"
  | ExternFn nat behaviour
  | Fn closure
and closure =
    PageLoadListener
  | BeforeSwapListener
  | BeforeSwapDone
  | ExitComplete js_value
  | ServiceCardEnter elem nat
  | FeaturedWorkEnter elem nat
  | TestimonialEnter elem nat
  | TestimonialsCtaEnter elem
  | CtaSectionEnter elem

type_synonym vars = "(string \<times> js_value) list"

text \<open>The position argument of \<open>timeline.to\<close>: omitted, or the string \<open>"-=x"\<close>.\<close>

datatype position = AtEnd | MinusEq real

datatype call =
    RegisterPlugin string
  | AddEventListener string closure
  | GsapSet js_value vars
  | GsapTo js_value vars
  | ScrollTriggerCreate vars
  | GsapTimeline vars
  | TimelineTo js_value vars position
  | Invoke js_value

text \<open>
  The exceptions that can leave a function of the script: the TypeError of calling what
  cannot be called, and whatever an outside function that was called has thrown.
\<close>

datatype js_error = TypeError | CalleeThrew nat

fun typeof :: "js_value \<Rightarrow> string" where
  "typeof Undefined = ''undefined''"
| "typeof Null = ''object''"
| "typeof (JBool b) = ''boolean''"
| "typeof (JNum x) = ''number''"
| "typeof (JStr s) = ''string''"
| "typeof (Elem e) = ''object''"
| "typeof (ElemList es) = ''object''"
| "typeof (ExternFn n b) = ''function''"
| "typeof (Fn c) = ''function''"

text \<open>
  The exception, if any, with which the call expression \<open>v()\<close> ends; for an arrow
  function of the script it is the exception that leaves its body. The only statement of
  the script that can throw is a call of \<open>onComplete\<close>, in the body of the
  completion handler of the exit tween and in \<open>pageExitAnimation\<close> itself.
\<close>

fun callee_raises :: "js_value \<Rightarrow> js_error option"
  and body_raises :: "closure \<Rightarrow> js_error option" where
  "callee_raises (ExternFn n Returns) = None"
| "callee_raises (ExternFn n Throws) = Some (CalleeThrew n)"
| "callee_raises (ExternFn n ClassConstructor) = Some TypeError"
| "callee_raises (Fn c) = body_raises c"
| "callee_raises Undefined = Some TypeError"
| "callee_raises Null = Some TypeError"
| "callee_raises (JBool b) = Some TypeError"
| "callee_raises (JNum x) = Some TypeError"
| "callee_raises (JStr s) = Some TypeError"
| "callee_raises (Elem e) = Some TypeError"
| "callee_raises (ElemList es) = Some TypeError"
| "body_raises (ExitComplete v) =
     (if typeof v = ''function'' then callee_raises v else None)"
| "body_raises PageLoadListener = None"
| "body_raises BeforeSwapListener = None"
| "body_raises BeforeSwapDone = None"
| "body_raises (ServiceCardEnter e i) = None"
| "body_raises (FeaturedWorkEnter e i) = None"
| "body_raises (TestimonialEnter e i) = None"
| "body_raises (TestimonialsCtaEnter e) = None"
| "body_raises (CtaSectionEnter e) = None"

text \<open>
  The call expression \<open>v()\<close>: an exception of the call leaves the caller, which has
  no \<open>try\<close>; otherwise the call is recorded. \<open>Invoke v\<close> stands for the whole
  call of \<open>v\<close>, from entry to normal return.
\<close>

definition call_value :: "js_value \<Rightarrow> js_error + call list" where
  "call_value v = (case callee_raises v of Some e \<Rightarrow> Inl e | None \<Rightarrow> Inr [Invoke v])"

section \<open>The document\<close>

text \<open>
  A document gives, for each selector, the elements that match it, in document order.
  \<open>querySelector\<close> returns the first match or null; \<open>gsap.utils.toArray\<close> of a
  selector returns all matches.
\<close>

type_synonym document = "string \<Rightarrow> elem list"

definition querySelector :: "document \<Rightarrow> string \<Rightarrow> elem option" where
  "querySelector doc sel = (case doc sel of [] \<Rightarrow> None | e # rest \<Rightarrow> Some e)"

definition toArray :: "document \<Rightarrow> string \<Rightarrow> elem list" where
  "toArray doc sel = doc sel"

section \<open>Numbers\<close>

text \<open>
  JavaScript numbers are binary64 values. \<open>double_of x\<close> is the nearest number with a
  53-bit significand, ties going to the even significand; \<open>ulp x\<close> is the distance
  between neighbouring such numbers at the magnitude of \<open>x\<close>. The exponent is not
  bounded here, so \<open>double_of\<close> is binary64 rounding for magnitudes from
  \<open>2^-1022\<close> up to \<open>2^1024\<close>, which covers every product of an array index
  and a stagger step. \<open>js_times\<close> is the operator \<open>*\<close>: both operands are
  numbers, and the exact product is rounded.
\<close>

definition round_even :: "real \<Rightarrow> int" where
  "round_even y =
     (let f = \<lfloor>y\<rfloor>; r = y - of_int f in
      if r < 1 / 2 then f
      else if 1 / 2 < r then f + 1
      else if even f then f else f + 1)"

definition ulp :: "real \<Rightarrow> real" where
  "ulp x =
     (if 1 \<le> x then 2 ^ nat (bitlen \<lfloor>x\<rfloor> - 1) / 2 ^ 52
      else 1 / (2 ^ nat (bitlen (\<lceil>1 / x\<rceil> - 1)) * 2 ^ 52))"

definition double_of :: "real \<Rightarrow> real" where
  "double_of x =
     (if x = 0 then 0
      else if 0 < x then of_int (round_even (x / ulp x)) * ulp x
      else - (of_int (round_even (- x / ulp (- x))) * ulp (- x)))"

definition js_times :: "real \<Rightarrow> real \<Rightarrow> real" where
  "js_times a b = double_of (double_of a * double_of b)"

section \<open>The functions of the script\<close>

definition MAIN_CONTENT_SELECTOR :: string where
  "MAIN_CONTENT_SELECTOR = ''#main-content''"

definition pageLoadAnimation :: "document \<Rightarrow> call list" where
  "pageLoadAnimation doc =
     (case querySelector doc MAIN_CONTENT_SELECTOR of
        Some mainContent \<Rightarrow>
          [GsapSet (Elem mainContent) [(''opacity'', JNum 0), (''y'', JNum 20)],
           GsapTo (Elem mainContent)
             [(''opacity'', JNum 1), (''y'', JNum 0), (''duration'', JNum 0.5),
              (''ease'', JStr ''power2.out'')]]
      | None \<Rightarrow> [])"

definition pageExitAnimation :: "document \<Rightarrow> js_value \<Rightarrow> js_error + call list" where
  "pageExitAnimation doc onComplete =
     (case querySelector doc MAIN_CONTENT_SELECTOR of
        Some mainContent \<Rightarrow>
          Inr [GsapTo (Elem mainContent)
                 [(''opacity'', JNum 0), (''y'', JNum (- 20)), (''duration'', JNum 0.3),
                  (''ease'', JStr ''power2.in''),
                  (''onComplete'', Fn (ExitComplete onComplete))]]
      | None \<Rightarrow>
          if typeof onComplete = ''function'' then call_value onComplete else Inr [])"

definition animateServiceCards :: "document \<Rightarrow> call list" where
  "animateServiceCards doc =
     (let cards = toArray doc ''.gsap-service-card'' in
      if length cards = 0 then []
      else concat (map (\<lambda>(index, card).
             [GsapSet (Elem card) [(''autoAlpha'', JNum 0), (''y'', JNum 50)],
              ScrollTriggerCreate
                [(''trigger'', Elem card), (''start'', JStr ''top 85%''),
                 (''end'', JStr ''bottom 15%''), (''once'', JBool True),
                 (''onEnter'', Fn (ServiceCardEnter card index))]])
           (enumerate 0 cards)))"

definition animateFeaturedWorkItems :: "document \<Rightarrow> call list" where
  "animateFeaturedWorkItems doc =
     (let items = toArray doc ''.gsap-featured-work-item'' in
      if length items = 0 then []
      else concat (map (\<lambda>(index, item).
             [GsapSet (Elem item)
                [(''autoAlpha'', JNum 0), (''y'', JNum 50), (''scale'', JNum 0.95)],
              ScrollTriggerCreate
                [(''trigger'', Elem item), (''start'', JStr ''top 85%''),
                 (''once'', JBool True),
                 (''onEnter'', Fn (FeaturedWorkEnter item index))]])
           (enumerate 0 items)))"

definition animateTestimonials :: "document \<Rightarrow> call list" where
  "animateTestimonials doc =
     (let cards = toArray doc ''.gsap-testimonial-card'';
          cta = querySelector doc ''.gsap-testimonials-cta'' in
      (if length cards > 0 then
         concat (map (\<lambda>(index, card).
             [GsapSet (Elem card) [(''autoAlpha'', JNum 0), (''y'', JNum 50)],
              ScrollTriggerCreate
                [(''trigger'', Elem card), (''start'', JStr ''top 85%''),
                 (''once'', JBool True),
                 (''onEnter'', Fn (TestimonialEnter card index))]])
           (enumerate 0 cards))
       else []) @
      (case cta of
         Some c \<Rightarrow>
           [GsapSet (Elem c) [(''autoAlpha'', JNum 0), (''y'', JNum 50)],
            ScrollTriggerCreate
              [(''trigger'', Elem c), (''start'', JStr ''top 90%''),
               (''once'', JBool True),
               (''onEnter'', Fn (TestimonialsCtaEnter c))]]
       | None \<Rightarrow> []))"

definition animateCtaSection :: "document \<Rightarrow> call list" where
  "animateCtaSection doc =
     (case querySelector doc ''.gsap-cta-section'' of
        None \<Rightarrow> []
      | Some section \<Rightarrow>
          [GsapSet (Elem section) [(''autoAlpha'', JNum 0), (''y'', JNum 50)],
           ScrollTriggerCreate
             [(''trigger'', Elem section), (''start'', JStr ''top 85%''),
              (''once'', JBool True),
              (''onEnter'', Fn (CtaSectionEnter section))]])"

text \<open>
  The hero block of the page-load listener (the statements between the call of
  \<open>pageLoadAnimation\<close> and the call of \<open>animateServiceCards\<close>).
\<close>

definition heroSection :: "document \<Rightarrow> call list" where
  "heroSection doc =
     (let heroText = querySelector doc ''.gsap-hero-text-content'';
          heroImage = querySelector doc ''.gsap-hero-image-container'';
          heroTrustedBy = querySelector doc ''.gsap-hero-trusted-by'' in
      case (heroText, heroImage) of
        (Some t, Some i) \<Rightarrow>
          (let elementsToAnimate = List.map_filter id [heroText, heroImage, heroTrustedBy] in
           if length elementsToAnimate > 0 then
             [GsapSet (ElemList elementsToAnimate) [(''autoAlpha'', JNum 0), (''y'', JNum 30)],
              GsapTimeline [(''delay'', JNum 0.3)],
              TimelineTo (Elem t)
                [(''autoAlpha'', JNum 1), (''y'', JNum 0), (''duration'', JNum 0.6),
                 (''ease'', JStr ''power2.out'')] AtEnd,
              TimelineTo (Elem i)
                [(''autoAlpha'', JNum 1), (''y'', JNum 0), (''duration'', JNum 0.6),
                 (''ease'', JStr ''power2.out'')] (MinusEq 0.4)] @
             (case heroTrustedBy of
                Some tb \<Rightarrow>
                  [TimelineTo (Elem tb)
                     [(''autoAlpha'', JNum 1), (''y'', JNum 0), (''duration'', JNum 0.5),
                      (''ease'', JStr ''power2.out'')] (MinusEq 0.3)]
              | None \<Rightarrow> [])
           else [])
      | other \<Rightarrow> [])"

text \<open>The body of each arrow function of the script.\<close>

fun run_closure :: "document \<Rightarrow> closure \<Rightarrow> js_error + call list" where
  "run_closure doc PageLoadListener =
     Inr (pageLoadAnimation doc @ heroSection doc @ animateServiceCards doc @
          animateFeaturedWorkItems doc @ animateTestimonials doc @ animateCtaSection doc)"
| "run_closure doc BeforeSwapListener = pageExitAnimation doc (Fn BeforeSwapDone)"
| "run_closure doc BeforeSwapDone = Inr []"
| "run_closure doc (ExitComplete onComplete) =
     (if typeof onComplete = ''function'' then call_value onComplete else Inr [])"
| "run_closure doc (ServiceCardEnter cardEl index) =
     Inr [GsapTo (Elem cardEl)
            [(''autoAlpha'', JNum 1), (''y'', JNum 0), (''duration'', JNum 0.5),
             (''delay'', JNum (js_times (real index) 0.1)), (''ease'', JStr ''power2.out'')]]"
| "run_closure doc (FeaturedWorkEnter item index) =
     Inr [GsapTo (Elem item)
            [(''autoAlpha'', JNum 1), (''y'', JNum 0), (''scale'', JNum 1),
             (''duration'', JNum 0.5), (''delay'', JNum (js_times (real index) 0.1)),
             (''ease'', JStr ''power2.out'')]]"
| "run_closure doc (TestimonialEnter cardEl index) =
     Inr [GsapTo (Elem cardEl)
            [(''autoAlpha'', JNum 1), (''y'', JNum 0), (''duration'', JNum 0.5),
             (''delay'', JNum (js_times (real index) 0.15)), (''ease'', JStr ''power2.out'')]]"
| "run_closure doc (TestimonialsCtaEnter cta) =
     Inr [GsapTo (Elem cta)
            [(''autoAlpha'', JNum 1), (''y'', JNum 0), (''duration'', JNum 0.6),
             (''ease'', JStr ''power2.out'')]]"
| "run_closure doc (CtaSectionEnter section) =
     Inr [GsapTo (Elem section)
            [(''autoAlpha'', JNum 1), (''y'', JNum 0), (''duration'', JNum 0.6),
             (''ease'', JStr ''power2.out'')]]"


section \<open>The contract of the animation library\<close>

text \<open>
  GSAP and its ScrollTrigger plugin are not part of the script. Three clauses of their
  documented behaviour are needed to say what the script's configuration means over time,
  and each is written down here as a small executable function:
  \<^item> when a tween has completed, the library calls the \<open>onComplete\<close> entry of its
    configuration, if that entry is a function;
  \<^item> a scroll trigger calls \<open>onEnter\<close> when its trigger element enters the viewport,
    and a trigger created with \<open>once: true\<close> removes itself when it has fired;
  \<^item> a timeline appends a tween at its current end when no position is given, and the
    position \<open>"-=x"\<close> places it \<open>x\<close> seconds before that end.
\<close>

datatype event = Called call | TweenCompleted js_value

definition tween_completes :: "document \<Rightarrow> js_value \<Rightarrow> vars \<Rightarrow> js_error + event list" where
  "tween_completes doc target vs =
     (case map_of vs ''onComplete'' of
        Some (Fn c) \<Rightarrow>
          (case run_closure doc c of
             Inl e \<Rightarrow> Inl e
           | Inr cs \<Rightarrow> Inr (TweenCompleted target # map Called cs))
      | Some (ExternFn n b) \<Rightarrow>
          (case call_value (ExternFn n b) of
             Inl e \<Rightarrow> Inl e
           | Inr cs \<Rightarrow> Inr (TweenCompleted target # map Called cs))
      | other \<Rightarrow> Inr [TweenCompleted target])"

fun completion :: "document \<Rightarrow> call \<Rightarrow> js_error + event list" where
  "completion doc (GsapTo target vs) = tween_completes doc target vs"
| "completion doc c = Inr []"

fun completions :: "document \<Rightarrow> call list \<Rightarrow> js_error + event list" where
  "completions doc [] = Inr []"
| "completions doc (c # cs) =
     (case completion doc c of
        Inl e \<Rightarrow> Inl e
      | Inr es \<Rightarrow>
          (case completions doc cs of
             Inl e \<Rightarrow> Inl e
           | Inr es' \<Rightarrow> Inr (es @ es')))"

text \<open>
  A page exit from the call of \<open>pageExitAnimation\<close> until its tweens have completed:
  first what the function does before it returns, then what completing its tweens does.
\<close>

definition exit_transition :: "document \<Rightarrow> js_value \<Rightarrow> js_error + event list" where
  "exit_transition doc onComplete =
     (case pageExitAnimation doc onComplete of
        Inl e \<Rightarrow> Inl e
      | Inr cs \<Rightarrow>
          (case completions doc cs of
             Inl e \<Rightarrow> Inl e
           | Inr es \<Rightarrow> Inr (map Called cs @ es)))"

text \<open>\<open>precedes a b es\<close>: every occurrence of \<open>b\<close> in \<open>es\<close> has an \<open>a\<close> before it.\<close>

fun precedes :: "'a \<Rightarrow> 'a \<Rightarrow> 'a list \<Rightarrow> bool" where
  "precedes a b [] = True"
| "precedes a b (e # es) = (if e = a then True else e \<noteq> b \<and> precedes a b es)"

text \<open>Scroll triggers: the live triggers are the configurations given to \<open>ScrollTrigger.create\<close>.\<close>

fun registered_triggers :: "call list \<Rightarrow> vars list" where
  "registered_triggers [] = []"
| "registered_triggers (ScrollTriggerCreate cfg # cs) = cfg # registered_triggers cs"
| "registered_triggers (c # cs) = registered_triggers cs"

definition watches :: "elem \<Rightarrow> vars \<Rightarrow> bool" where
  "watches e cfg = (map_of cfg ''trigger'' = Some (Elem e))"

definition is_once :: "vars \<Rightarrow> bool" where
  "is_once cfg = (map_of cfg ''once'' = Some (JBool True))"

text \<open>
  \<open>firings es live\<close>: the triggers whose \<open>onEnter\<close> runs, in order, while the elements
  \<open>es\<close> enter the viewport one after the other, starting from the live triggers \<open>live\<close>.
\<close>

fun firings :: "elem list \<Rightarrow> vars list \<Rightarrow> vars list" where
  "firings [] live = []"
| "firings (e # es) live =
     filter (watches e) live @
     firings es (filter (\<lambda>cfg. \<not> (watches e cfg \<and> is_once cfg)) live)"

text \<open>Timelines: each tween added to a timeline gets a start and an end time in seconds.\<close>

definition duration_of :: "vars \<Rightarrow> real" where
  "duration_of vs = (case map_of vs ''duration'' of Some (JNum d) \<Rightarrow> d | other \<Rightarrow> 0.5)"

definition timeline_end :: "(js_value \<times> real \<times> real) list \<Rightarrow> real" where
  "timeline_end placed = fold max (map (\<lambda>(target, start, finish). finish) placed) 0"

fun place :: "position \<Rightarrow> real \<Rightarrow> real" where
  "place AtEnd e = e"
| "place (MinusEq x) e = e - x"

fun schedule :: "call list \<Rightarrow> (js_value \<times> real \<times> real) list \<Rightarrow> (js_value \<times> real \<times> real) list" where
  "schedule [] placed = placed"
| "schedule (TimelineTo target vs pos # cs) placed =
     (let start = place pos (timeline_end placed)
      in schedule cs (placed @ [(target, start, start + duration_of vs)]))"
| "schedule (c # cs) placed = schedule cs placed"

fun timeline_delay :: "call list \<Rightarrow> real option" where
  "timeline_delay [] = None"
| "timeline_delay (GsapTimeline vs # cs) =
     (case map_of vs ''delay'' of Some (JNum d) \<Rightarrow> Some d | other \<Rightarrow> Some 0)"
| "timeline_delay (c # cs) = timeline_delay cs"

section \<open>Reading a sequence of calls\<close>

text \<open>The tween that a scroll trigger's \<open>onEnter\<close> starts: its target and its configuration.\<close>

definition enter_tween :: "document \<Rightarrow> vars \<Rightarrow> (js_value \<times> vars) option" where
  "enter_tween doc cfg =
     (case map_of cfg ''onEnter'' of
        Some (Fn cl) \<Rightarrow>
          (case run_closure doc cl of
             Inr [GsapTo target vs] \<Rightarrow> Some (target, vs)
           | other \<Rightarrow> None)
      | other \<Rightarrow> None)"

text \<open>
  The one-shot shape: for each element in turn, one \<open>gsap.set\<close> of initial style
  properties on it, then one scroll trigger on it with \<open>once: true\<close> whose \<open>onEnter\<close>
  starts one tween of the same element over the same style properties, lasting \<open>d\<close>
  seconds; and nothing else.
\<close>

fun one_shot_sequence :: "document \<Rightarrow> real \<Rightarrow> elem list \<Rightarrow> call list \<Rightarrow> bool" where
  "one_shot_sequence doc d [] cs = (cs = [])"
| "one_shot_sequence doc d (e # es) (GsapSet target init # ScrollTriggerCreate cfg # cs) =
     (target = Elem e \<and> init \<noteq> [] \<and> watches e cfg \<and> is_once cfg \<and>
      (case enter_tween doc cfg of
         Some (target', vs) \<Rightarrow>
           target' = Elem e \<and> set (map fst init) \<subseteq> set (map fst vs) \<and>
           map_of vs ''duration'' = Some (JNum d)
       | None \<Rightarrow> False) \<and>
      one_shot_sequence doc d es cs)"
| "one_shot_sequence doc d es cs = False"

text \<open>The delay, in seconds, of the tween that a scroll trigger starts, when it sets one.\<close>

fun entrance_delay :: "document \<Rightarrow> call \<Rightarrow> real option" where
  "entrance_delay doc (ScrollTriggerCreate cfg) =
     (case enter_tween doc cfg of
        Some (target, vs) \<Rightarrow>
          (case map_of vs ''delay'' of Some (JNum d) \<Rightarrow> Some d | other \<Rightarrow> None)
      | None \<Rightarrow> None)"
| "entrance_delay doc c = None"

text \<open>
  The configuration object of a call: the \<open>vars\<close> argument of \<open>gsap.set\<close>,
  \<open>gsap.to\<close>, \<open>gsap.timeline\<close> and \<open>timeline.to\<close>, and the argument of
  \<open>ScrollTrigger.create\<close>.
\<close>

fun config_of :: "call \<Rightarrow> vars option" where
  "config_of (GsapSet target vs) = Some vs"
| "config_of (GsapTo target vs) = Some vs"
| "config_of (GsapTimeline vs) = Some vs"
| "config_of (TimelineTo target vs pos) = Some vs"
| "config_of (ScrollTriggerCreate cfg) = Some cfg"
| "config_of c = None"

definition setting_keys :: "string list" where
  "setting_keys =
     [''opacity'', ''autoAlpha'', ''y'', ''scale'', ''duration'', ''ease'', ''delay'']"

definition trigger_keys :: "string list" where
  "trigger_keys = [''trigger'', ''start'', ''end'', ''once'', ''onEnter'']"

definition keys_within :: "string list \<Rightarrow> call \<Rightarrow> bool" where
  "keys_within allowed c =
     (case config_of c of
        None \<Rightarrow> True
      | Some vs \<Rightarrow> list_all (\<lambda>k. k \<in> set allowed) (map fst vs))"

text \<open>The keys the script gives to a call of each kind.\<close>

fun keys_of_kind :: "call \<Rightarrow> string list" where
  "keys_of_kind (ScrollTriggerCreate cfg) = trigger_keys"
| "keys_of_kind c = setting_keys"







text \<open>The element a query has found, as a list.\<close>

fun found :: "elem option \<Rightarrow> elem list" where
  "found None = []"
| "found (Some e) = [e]"

fun positions :: "call list \<Rightarrow> position list" where
  "positions [] = []"
| "positions (TimelineTo target vs pos # cs) = pos # positions cs"
| "positions (c # cs) = positions cs"

text \<open>Everything the page-load listener does before it returns.\<close>

definition page_load_calls :: "document \<Rightarrow> call list" where
  "page_load_calls doc =
     (case run_closure doc PageLoadListener of Inr cs \<Rightarrow> cs | Inl e \<Rightarrow> [])"

section \<open>Some documents\<close>

text \<open>A page on which no selector matches, and a page with a hero, three service cards and
  two testimonial cards.\<close>

definition blank_page :: document where
  "blank_page sel = []"

definition sample_page :: document where
  "sample_page sel =
     (if sel = ''#main-content'' then [1]
      else if sel = ''.gsap-service-card'' then [2, 3, 4]
      else if sel = ''.gsap-hero-text-content'' then [5]
      else if sel = ''.gsap-hero-image-container'' then [6]
      else if sel = ''.gsap-hero-trusted-by'' then [7]
      else if sel = ''.gsap-testimonial-card'' then [8, 9]
      else [])"

text \<open>Pages on which only a part is present: a hero text and trusted-by element without
  an image, a hero text and image without the trusted-by element, a testimonials
  call-to-action without cards; and a page with four service cards and four testimonial
  cards.\<close>

definition text_only_page :: document where
  "text_only_page sel =
     (if sel = ''.gsap-hero-text-content'' then [5]
      else if sel = ''.gsap-hero-trusted-by'' then [7]
      else [])"

definition hero_pair_page :: document where
  "hero_pair_page sel =
     (if sel = ''.gsap-hero-text-content'' then [5]
      else if sel = ''.gsap-hero-image-container'' then [6]
      else [])"

definition cta_only_page :: document where
  "cta_only_page sel = (if sel = ''.gsap-testimonials-cta'' then [10] else [])"

definition long_page :: document where
  "long_page sel =
     (if sel = ''.gsap-service-card'' then [11, 12, 13, 14]
      else if sel = ''.gsap-testimonial-card'' then [15, 16, 17, 18]
      else [])"

section \<open>Basic facts\<close>

lemma querySelector_Nil: "doc sel = [] \<Longrightarrow> querySelector doc sel = None"
  by (simp add: querySelector_def)

lemma list_all_concat_map:
  "list_all P (concat (map f xs)) = list_all (\<lambda>x. list_all P (f x)) xs"
  by (induction xs) simp_all

lemma length_concat_pairs:
  "length (concat (map (\<lambda>(index, el). [f index el, g index el]) (enumerate n es))) =
   2 * length es"
  by (induction es arbitrary: n) simp_all

lemma map_filter_append:
  "List.map_filter f (xs @ ys) = List.map_filter f xs @ List.map_filter f ys"
  by (simp add: List.map_filter_def)

lemma count_list_filter:
  "count_list (filter P xs) x = (if P x then count_list xs x else 0)"
  by (induction xs) auto

lemma count_list_zero: "x \<notin> set xs \<Longrightarrow> count_list xs x = 0"
  by (induction xs) auto

lemma page_load_calls_eq:
  "page_load_calls doc =
     pageLoadAnimation doc @ heroSection doc @ animateServiceCards doc @
     animateFeaturedWorkItems doc @ animateTestimonials doc @ animateCtaSection doc"
  by (simp add: page_load_calls_def)

lemma animateTestimonials_split:
  "animateTestimonials doc =
     concat (map (\<lambda>(index, el).
        [GsapSet (Elem el) [(''autoAlpha'', JNum 0), (''y'', JNum 50)],
         ScrollTriggerCreate
           [(''trigger'', Elem el), (''start'', JStr ''top 85%''),
            (''once'', JBool True),
            (''onEnter'', Fn (TestimonialEnter el index))]])
      (enumerate 0 (toArray doc ''.gsap-testimonial-card''))) @
     (case querySelector doc ''.gsap-testimonials-cta'' of
        Some c \<Rightarrow>
          [GsapSet (Elem c) [(''autoAlpha'', JNum 0), (''y'', JNum 50)],
           ScrollTriggerCreate
             [(''trigger'', Elem c), (''start'', JStr ''top 90%''),
              (''once'', JBool True),
              (''onEnter'', Fn (TestimonialsCtaEnter c))]]
      | None \<Rightarrow> [])"
  by (simp add: animateTestimonials_def Let_def)

lemma sample_service_cards:
  "animateServiceCards sample_page =
     [GsapSet (Elem 2) [(''autoAlpha'', JNum 0), (''y'', JNum 50)],
      ScrollTriggerCreate
        [(''trigger'', Elem 2), (''start'', JStr ''top 85%''),
         (''end'', JStr ''bottom 15%''), (''once'', JBool True),
         (''onEnter'', Fn (ServiceCardEnter 2 0))],
      GsapSet (Elem 3) [(''autoAlpha'', JNum 0), (''y'', JNum 50)],
      ScrollTriggerCreate
        [(''trigger'', Elem 3), (''start'', JStr ''top 85%''),
         (''end'', JStr ''bottom 15%''), (''once'', JBool True),
         (''onEnter'', Fn (ServiceCardEnter 3 1))],
      GsapSet (Elem 4) [(''autoAlpha'', JNum 0), (''y'', JNum 50)],
      ScrollTriggerCreate
        [(''trigger'', Elem 4), (''start'', JStr ''top 85%''),
         (''end'', JStr ''bottom 15%''), (''once'', JBool True),
         (''onEnter'', Fn (ServiceCardEnter 4 2))]]"
  by (simp add: animateServiceCards_def toArray_def sample_page_def)

lemma call_value_Returns [simp]:
  "call_value (ExternFn n Returns) = Inr [Invoke (ExternFn n Returns)]"
  by (simp add: call_value_def)

lemma call_value_Throws [simp]: "call_value (ExternFn n Throws) = Inl (CalleeThrew n)"
  by (simp add: call_value_def)

lemma call_value_ClassConstructor [simp]:
  "call_value (ExternFn n ClassConstructor) = Inl TypeError"
  by (simp add: call_value_def)

text \<open>\<open>body_raises\<close> is the exception of \<open>run_closure\<close>.\<close>

lemma pageExitAnimation_own_callback:
  "\<exists>cs. pageExitAnimation doc (Fn BeforeSwapDone) = Inr cs"
  by (simp add: pageExitAnimation_def call_value_def split: option.splits)

lemma run_closure_raises:
  "run_closure doc c = Inl e \<longleftrightarrow> body_raises c = Some e"
proof (cases c)
  case BeforeSwapListener
  then show ?thesis using pageExitAnimation_own_callback [of doc] by auto
next
  case (ExitComplete v)
  then show ?thesis by (auto simp: call_value_def split: option.splits)
qed simp_all

section \<open>Rounding\<close>

lemma round_even_error: "\<bar>of_int (round_even y) - y\<bar> \<le> 1 / 2"
  unfolding round_even_def Let_def by (auto simp: abs_if) linarith+

lemma ulp_pos: "0 < x \<Longrightarrow> 0 < ulp x"
  by (simp add: ulp_def)

lemma ulp_le:
  assumes "0 < x"
  shows "ulp x * 2 ^ 52 \<le> x"
proof (cases "1 \<le> x")
  case True
  then have "0 < \<lfloor>x\<rfloor>" by simp
  from bitlen_bounds [OF this] have "2 ^ nat (bitlen \<lfloor>x\<rfloor> - 1) \<le> \<lfloor>x\<rfloor>" ..
  then have "(2::real) ^ nat (bitlen \<lfloor>x\<rfloor> - 1) \<le> of_int \<lfloor>x\<rfloor>"
    by (metis of_int_le_iff of_int_numeral of_int_power)
  also have "\<dots> \<le> x" by simp
  finally show ?thesis using True by (simp add: ulp_def)
next
  case False
  let ?n = "\<lceil>1 / x\<rceil> - 1"
  from False assms have "1 < 1 / x" by simp
  then have "0 < ?n" by linarith
  from bitlen_bounds [OF this] have "?n < 2 ^ nat (bitlen ?n)" ..
  then have "\<lceil>1 / x\<rceil> \<le> 2 ^ nat (bitlen ?n)" by simp
  then have "1 / x \<le> 2 ^ nat (bitlen ?n)"
    by (metis ceiling_le_iff of_int_numeral of_int_power)
  then have "1 \<le> 2 ^ nat (bitlen ?n) * x"
    using assms by (simp add: field_simps)
  then show ?thesis using False assms by (simp add: ulp_def field_simps)
qed

text \<open>Rounding moves a number by at most half an ulp, which is at most \<open>2^-53\<close> of it.\<close>

lemma double_of_error:
  assumes "0 \<le> x"
  shows "\<bar>double_of x - x\<bar> \<le> x / 2 ^ 53"
proof (cases "x = 0")
  case True
  then show ?thesis by (simp add: double_of_def)
next
  case False
  with assms have pos: "0 < x" by simp
  let ?q = "ulp x"
  let ?m = "of_int (round_even (x / ?q)) :: real"
  have q: "0 < ?q" using pos by (rule ulp_pos)
  have "\<bar>?m - x / ?q\<bar> \<le> 1 / 2" by (rule round_even_error)
  then have "\<bar>?m - x / ?q\<bar> * ?q \<le> 1 / 2 * ?q"
    using q by (intro mult_right_mono) simp_all
  moreover have "\<bar>?m - x / ?q\<bar> * ?q = \<bar>?m * ?q - x\<bar>"
  proof -
    have "(?m - x / ?q) * ?q = ?m * ?q - x" using q by (simp add: left_diff_distrib)
    then have "\<bar>?m * ?q - x\<bar> = \<bar>?m - x / ?q\<bar> * \<bar>?q\<bar>" by (metis abs_mult)
    then show ?thesis using q by simp
  qed
  ultimately have "\<bar>?m * ?q - x\<bar> \<le> ?q / 2" by simp
  moreover have "?q / 2 \<le> x / 2 ^ 53" using ulp_le [OF pos] by simp
  ultimately show ?thesis using pos by (simp add: double_of_def)
qed

lemma double_of_lower:
  assumes "0 \<le> x"
  shows "(1 - 1 / 2 ^ 53) * x \<le> double_of x"
proof -
  from double_of_error [OF assms] have "x - x / 2 ^ 53 \<le> double_of x" by linarith
  then show ?thesis by (simp add: algebra_simps)
qed

lemma double_of_upper:
  assumes "0 \<le> x"
  shows "double_of x \<le> (1 + 1 / 2 ^ 53) * x"
proof -
  from double_of_error [OF assms] have "double_of x \<le> x + x / 2 ^ 53" by linarith
  then show ?thesis by (simp add: algebra_simps)
qed

lemma double_of_nonneg:
  assumes "0 \<le> x"
  shows "0 \<le> double_of x"
proof -
  have "0 \<le> (1 - 1 / 2 ^ 53) * x" using assms by (intro mult_nonneg_nonneg) simp_all
  with double_of_lower [OF assms] show ?thesis by linarith
qed

lemma double_of_pos:
  assumes "0 < x"
  shows "0 < double_of x"
proof -
  have "0 < (1 - 1 / 2 ^ 53) * x" using assms by (intro mult_pos_pos) simp_all
  with double_of_lower [of x] assms show ?thesis by linarith
qed

text \<open>
  The product of an index and a positive step: between two indices below \<open>2^32\<close> (the
  bound of an array length) the rounded products keep the order of the indices.
\<close>

lemma js_times_upper:
  assumes "0 \<le> a" and "0 \<le> b"
  shows "js_times a b \<le> (1 + 1 / 2 ^ 53) * ((1 + 1 / 2 ^ 53) * a * double_of b)"
proof -
  have B: "0 \<le> double_of b" using assms(2) by (rule double_of_nonneg)
  have A: "0 \<le> double_of a" using assms(1) by (rule double_of_nonneg)
  have "double_of a * double_of b \<le> (1 + 1 / 2 ^ 53) * a * double_of b"
    using double_of_upper [OF assms(1)] B by (intro mult_right_mono) simp_all
  then have "(1 + 1 / 2 ^ 53) * (double_of a * double_of b)
               \<le> (1 + 1 / 2 ^ 53) * ((1 + 1 / 2 ^ 53) * a * double_of b)"
    by (rule mult_left_mono) simp_all
  moreover have "js_times a b \<le> (1 + 1 / 2 ^ 53) * (double_of a * double_of b)"
    unfolding js_times_def using A B by (intro double_of_upper mult_nonneg_nonneg)
  ultimately show ?thesis by linarith
qed

lemma js_times_lower:
  assumes "0 \<le> a" and "0 \<le> b"
  shows "(1 - 1 / 2 ^ 53) * ((1 - 1 / 2 ^ 53) * a * double_of b) \<le> js_times a b"
proof -
  have B: "0 \<le> double_of b" using assms(2) by (rule double_of_nonneg)
  have A: "0 \<le> double_of a" using assms(1) by (rule double_of_nonneg)
  have "(1 - 1 / 2 ^ 53) * a * double_of b \<le> double_of a * double_of b"
    using double_of_lower [OF assms(1)] B by (intro mult_right_mono) simp_all
  then have "(1 - 1 / 2 ^ 53) * ((1 - 1 / 2 ^ 53) * a * double_of b)
               \<le> (1 - 1 / 2 ^ 53) * (double_of a * double_of b)"
    by (rule mult_left_mono) simp_all
  moreover have "(1 - 1 / 2 ^ 53) * (double_of a * double_of b) \<le> js_times a b"
    unfolding js_times_def using A B by (intro double_of_lower mult_nonneg_nonneg)
  ultimately show ?thesis by linarith
qed

lemma js_times_index_strict_mono:
  assumes "i < j" and "j \<le> 2 ^ 32" and "0 < c"
  shows "js_times (real i) c < js_times (real j) c"
proof -
  let ?C = "double_of c"
  have C: "0 < ?C" using assms(3) by (rule double_of_pos)
  have ij: "real i + 1 \<le> real j" using assms(1) by linarith
  have j: "real j \<le> 2 ^ 32" using assms(2)
    by (metis of_nat_le_iff of_nat_numeral of_nat_power)
  have "(1 + 1 / 2 ^ 53) * ((1 + 1 / 2 ^ 53) * real i)
          < (1 - 1 / 2 ^ 53) * ((1 - 1 / 2 ^ 53) * real j)"
    using ij j by simp
  then have "(1 + 1 / 2 ^ 53) * ((1 + 1 / 2 ^ 53) * real i) * ?C
          < (1 - 1 / 2 ^ 53) * ((1 - 1 / 2 ^ 53) * real j) * ?C"
    using C by (rule mult_strict_right_mono)
  moreover have "js_times (real i) c \<le> (1 + 1 / 2 ^ 53) * ((1 + 1 / 2 ^ 53) * real i) * ?C"
    using js_times_upper [of "real i" c] assms(3) by (simp add: mult.assoc)
  moreover have "(1 - 1 / 2 ^ 53) * ((1 - 1 / 2 ^ 53) * real j) * ?C \<le> js_times (real j) c"
    using js_times_lower [of "real j" c] assms(3) by (simp add: mult.assoc)
  ultimately show ?thesis by linarith
qed

lemma staggered_delays_increase:
  assumes "n \<le> 2 ^ 32" and "0 < c"
  shows "sorted_wrt (<) (map (\<lambda>i. js_times (real i) c) [0..<n])"
  using assms by (auto simp: sorted_wrt_map sorted_wrt_iff_nth_less
      intro!: js_times_index_strict_mono)

text \<open>The rounded product stays within \<open>2^-51\<close> of the exact one.\<close>

lemma js_times_close:
  assumes "0 \<le> a" and "0 \<le> b"
  shows "\<bar>js_times a b - a * b\<bar> \<le> a * b / 2 ^ 51"
proof -
  have ab: "0 \<le> a * b" using assms by simp
  have B: "0 \<le> double_of b" using assms(2) by (rule double_of_nonneg)
  have up: "js_times a b \<le> (1 + 1 / 2 ^ 53) * ((1 + 1 / 2 ^ 53) * a * double_of b)"
    using assms by (rule js_times_upper)
  have "(1 + 1 / 2 ^ 53) * a * double_of b \<le> (1 + 1 / 2 ^ 53) * a * ((1 + 1 / 2 ^ 53) * b)"
    using double_of_upper [OF assms(2)] assms(1) by (intro mult_left_mono) simp_all
  then have "(1 + 1 / 2 ^ 53) * ((1 + 1 / 2 ^ 53) * a * double_of b)
               \<le> (1 + 1 / 2 ^ 53) * ((1 + 1 / 2 ^ 53) * a * ((1 + 1 / 2 ^ 53) * b))"
    by (rule mult_left_mono) simp_all
  also have "\<dots> = (1 + 1 / 2 ^ 53) * (1 + 1 / 2 ^ 53) * (1 + 1 / 2 ^ 53) * (a * b)"
    by (simp add: mult_ac)
  also have "\<dots> \<le> (1 + 1 / 2 ^ 51) * (a * b)"
    using ab by (intro mult_right_mono) simp_all
  finally have hi: "js_times a b \<le> (1 + 1 / 2 ^ 51) * (a * b)"
    using up by linarith
  have lo': "(1 - 1 / 2 ^ 53) * ((1 - 1 / 2 ^ 53) * a * double_of b) \<le> js_times a b"
    using assms by (rule js_times_lower)
  have "(1 - 1 / 2 ^ 53) * a * ((1 - 1 / 2 ^ 53) * b) \<le> (1 - 1 / 2 ^ 53) * a * double_of b"
    using double_of_lower [OF assms(2)] assms(1) by (intro mult_left_mono) simp_all
  then have "(1 - 1 / 2 ^ 53) * ((1 - 1 / 2 ^ 53) * a * ((1 - 1 / 2 ^ 53) * b))
               \<le> (1 - 1 / 2 ^ 53) * ((1 - 1 / 2 ^ 53) * a * double_of b)"
    by (rule mult_left_mono) simp_all
  moreover have "(1 - 1 / 2 ^ 53) * ((1 - 1 / 2 ^ 53) * a * ((1 - 1 / 2 ^ 53) * b))
                  = (1 - 1 / 2 ^ 53) * (1 - 1 / 2 ^ 53) * (1 - 1 / 2 ^ 53) * (a * b)"
    by (simp add: mult_ac)
  moreover have "(1 - 1 / 2 ^ 51) * (a * b)
                   \<le> (1 - 1 / 2 ^ 53) * (1 - 1 / 2 ^ 53) * (1 - 1 / 2 ^ 53) * (a * b)"
    using ab by (intro mult_right_mono) simp_all
  ultimately have lo: "(1 - 1 / 2 ^ 51) * (a * b) \<le> js_times a b"
    using lo' by linarith
  have "js_times a b \<le> a * b + a * b / 2 ^ 51" using hi by (simp add: algebra_simps)
  moreover have "a * b - a * b / 2 ^ 51 \<le> js_times a b" using lo by (simp add: algebra_simps)
  ultimately show ?thesis by linarith
qed

text \<open>The values at index 3, where rounding shows.\<close>

lemma double_of_tenth: "double_of 0.1 = 3602879701896397 / 2 ^ 55"
proof -
  have "bitlen 9 = 4" by code_simp
  then show ?thesis by (simp add: double_of_def ulp_def round_even_def Let_def)
qed

lemma double_of_three: "double_of 3 = 3"
proof -
  have "bitlen 3 = 2" by code_simp
  then show ?thesis by (simp add: double_of_def ulp_def round_even_def Let_def)
qed

lemma three_tenths: "js_times 3 0.1 = 5404319552844596 / 2 ^ 54"
proof -
  have "bitlen 3 = 2" by code_simp
  then show ?thesis
    unfolding js_times_def double_of_tenth double_of_three
    by (simp add: double_of_def ulp_def round_even_def Let_def)
qed

lemma double_of_fifteen_hundredths: "double_of 0.15 = 5404319552844595 / 2 ^ 55"
proof -
  have "bitlen 6 = 3" by code_simp
  then show ?thesis by (simp add: double_of_def ulp_def round_even_def Let_def)
qed

lemma nine_twentieths: "js_times 3 0.15 = 8106479329266892 / 2 ^ 54"
proof -
  have "bitlen 2 = 2" by code_simp
  then show ?thesis
    unfolding js_times_def double_of_fifteen_hundredths double_of_three
    by (simp add: double_of_def ulp_def round_even_def Let_def)
qed

section \<open>Page exit\<close>

text \<open>
  C1, amended. If no element matches \<open>#main-content\<close>, \<open>pageExitAnimation\<close> starts
  no animation and at once calls its \<open>onComplete\<close> callback, for every function-valued
  \<open>onComplete\<close>. It returns normally when that call does: the call of a callback that
  returns is all it has done. The TypeError of calling a class constructor, and an
  exception thrown by the callback, leave \<open>pageExitAnimation\<close>.
\<close>

theorem pageExitAnimation_absent_calls_back:
  assumes "doc MAIN_CONTENT_SELECTOR = []"
  shows "(typeof onComplete = ''function'' \<and> callee_raises onComplete = None \<longrightarrow>
            pageExitAnimation doc onComplete = Inr [Invoke onComplete]) \<and>
         (\<forall>e. typeof onComplete = ''function'' \<and> callee_raises onComplete = Some e \<longrightarrow>
            pageExitAnimation doc onComplete = Inl e) \<and>
         pageExitAnimation doc (ExternFn n Returns) = Inr [Invoke (ExternFn n Returns)] \<and>
         pageExitAnimation doc (ExternFn n Throws) = Inl (CalleeThrew n) \<and>
         pageExitAnimation doc (ExternFn n ClassConstructor) = Inl TypeError \<and>
         pageExitAnimation doc (Fn BeforeSwapDone) = Inr [Invoke (Fn BeforeSwapDone)]"
  using assms by (simp add: pageExitAnimation_def querySelector_def call_value_def)

theorem pageExitAnimation_absent_calls_back_witness:
  "pageExitAnimation blank_page (ExternFn 7 Returns) = Inr [Invoke (ExternFn 7 Returns)] \<and>
   pageExitAnimation blank_page (ExternFn 7 Throws) = Inl (CalleeThrew 7) \<and>
   pageExitAnimation blank_page (Fn (ExitComplete (ExternFn 7 Returns))) =
     Inr [Invoke (Fn (ExitComplete (ExternFn 7 Returns)))]"
proof -
  have b: "blank_page MAIN_CONTENT_SELECTOR = []" by (simp add: blank_page_def)
  from pageExitAnimation_absent_calls_back
         [of blank_page "Fn (ExitComplete (ExternFn 7 Returns))" 7] b
  show ?thesis by simp
qed

text \<open>
  As first written, C1 promised that no exception is raised for any function-valued
  \<open>onComplete\<close>. A class constructor is function-valued and cannot be called: the call
  throws a TypeError and the callback does not run.
\<close>

theorem class_constructor_callback_counterexample:
  "blank_page MAIN_CONTENT_SELECTOR = [] \<and>
   typeof (ExternFn 0 ClassConstructor) = ''function'' \<and>
   pageExitAnimation blank_page (ExternFn 0 ClassConstructor) = Inl TypeError"
  by (simp add: blank_page_def pageExitAnimation_def querySelector_def)

text \<open>
  C4. When \<open>#main-content\<close> is present, \<open>pageExitAnimation\<close> itself only starts the
  exit tween (opacity 0, y -20, 0.3 seconds) and returns without calling \<open>onComplete\<close>.
  The callback is called from the tween's \<open>onComplete\<close> handler: in the course of the
  transition the completion of the tween comes before every call of the callback. When
  the call of the callback throws, it does so in that handler, at the end of the tween.
\<close>

theorem callback_after_exit_animation:
  assumes "querySelector doc MAIN_CONTENT_SELECTOR = Some m"
  shows "\<exists>vs. pageExitAnimation doc onComplete = Inr [GsapTo (Elem m) vs] \<and>
           map_of vs ''opacity'' = Some (JNum 0) \<and> map_of vs ''y'' = Some (JNum (- 20)) \<and>
           map_of vs ''duration'' = Some (JNum 0.3) \<and>
           map_of vs ''onComplete'' = Some (Fn (ExitComplete onComplete)) \<and>
           (\<forall>es. exit_transition doc onComplete = Inr es \<longrightarrow>
                 precedes (TweenCompleted (Elem m)) (Called (Invoke onComplete)) es) \<and>
           (typeof onComplete = ''function'' \<and> callee_raises onComplete = None \<longrightarrow>
              exit_transition doc onComplete =
                Inr [Called (GsapTo (Elem m) vs), TweenCompleted (Elem m),
                     Called (Invoke onComplete)]) \<and>
           (typeof onComplete \<noteq> ''function'' \<longrightarrow>
              exit_transition doc onComplete =
                Inr [Called (GsapTo (Elem m) vs), TweenCompleted (Elem m)]) \<and>
           (\<forall>e. typeof onComplete = ''function'' \<and> callee_raises onComplete = Some e \<longrightarrow>
              tween_completes doc (Elem m) vs = Inl e \<and>
              exit_transition doc onComplete = Inl e)"
  using assms
  by (auto simp: pageExitAnimation_def exit_transition_def tween_completes_def call_value_def
        split: option.splits)

theorem callback_after_exit_animation_witness:
  "exit_transition sample_page (ExternFn 3 Returns) =
     Inr [Called (GsapTo (Elem 1)
            [(''opacity'', JNum 0), (''y'', JNum (- 20)), (''duration'', JNum 0.3),
             (''ease'', JStr ''power2.in''),
             (''onComplete'', Fn (ExitComplete (ExternFn 3 Returns)))]),
          TweenCompleted (Elem 1), Called (Invoke (ExternFn 3 Returns))] \<and>
   pageExitAnimation sample_page (ExternFn 3 ClassConstructor) =
     Inr [GsapTo (Elem 1)
            [(''opacity'', JNum 0), (''y'', JNum (- 20)), (''duration'', JNum 0.3),
             (''ease'', JStr ''power2.in''),
             (''onComplete'', Fn (ExitComplete (ExternFn 3 ClassConstructor)))]] \<and>
   exit_transition sample_page (ExternFn 3 ClassConstructor) = Inl TypeError"
proof -
  have q: "querySelector sample_page MAIN_CONTENT_SELECTOR = Some 1"
    by (simp add: querySelector_def sample_page_def MAIN_CONTENT_SELECTOR_def)
  from callback_after_exit_animation [OF q, of "ExternFn 3 Returns"]
       callback_after_exit_animation [OF q, of "ExternFn 3 ClassConstructor"]
  show ?thesis by (auto simp: pageExitAnimation_def q)
qed

text \<open>
  C8. For every value of \<open>onComplete\<close> that is not a function (\<open>undefined\<close>
  included), \<open>pageExitAnimation\<close> returns normally, with \<open>#main-content\<close> present
  (it starts the exit tween) and absent (it does nothing); the tween's completion
  handler does nothing either, so the value is never called.
\<close>

theorem non_function_callback_ignored:
  assumes "typeof onComplete \<noteq> ''function''"
  shows "pageExitAnimation doc onComplete =
           Inr (case querySelector doc MAIN_CONTENT_SELECTOR of
                  Some m \<Rightarrow>
                    [GsapTo (Elem m)
                       [(''opacity'', JNum 0), (''y'', JNum (- 20)), (''duration'', JNum 0.3),
                        (''ease'', JStr ''power2.in''),
                        (''onComplete'', Fn (ExitComplete onComplete))]]
                | None \<Rightarrow> []) \<and>
         run_closure doc (ExitComplete onComplete) = Inr [] \<and>
         (\<exists>es. exit_transition doc onComplete = Inr es \<and>
               Called (Invoke onComplete) \<notin> set es)"
  using assms
  by (simp add: pageExitAnimation_def exit_transition_def tween_completes_def
           split: option.splits)

theorem non_function_callback_ignored_witness:
  "pageExitAnimation blank_page Undefined = Inr [] \<and>
   exit_transition sample_page (JStr ''go'') =
     Inr [Called (GsapTo (Elem 1)
            [(''opacity'', JNum 0), (''y'', JNum (- 20)), (''duration'', JNum 0.3),
             (''ease'', JStr ''power2.in''),
             (''onComplete'', Fn (ExitComplete (JStr ''go'')))]),
          TweenCompleted (Elem 1)]"
proof -
  have a: "typeof Undefined \<noteq> ''function''" and b: "typeof (JStr ''go'') \<noteq> ''function''"
    by simp_all
  have q: "querySelector sample_page MAIN_CONTENT_SELECTOR = Some 1"
    by (simp add: querySelector_def sample_page_def MAIN_CONTENT_SELECTOR_def)
  have n: "querySelector blank_page MAIN_CONTENT_SELECTOR = None"
    by (simp add: querySelector_def blank_page_def)
  from non_function_callback_ignored [OF a, of blank_page]
       non_function_callback_ignored [OF b, of sample_page]
  show ?thesis
    by (simp add: q n exit_transition_def tween_completes_def)
qed

section \<open>The hero block\<close>

text \<open>
  C9. The hero block does nothing unless both the hero text and the hero image are
  present: if either is missing it makes no call at all, so no hero element, the
  trusted-by element included, is styled or animated. With text and image present and
  only the trusted-by element missing, text and image are styled and animated.
\<close>

theorem hero_needs_text_and_image:
  "(querySelector doc ''.gsap-hero-text-content'' = None \<or>
    querySelector doc ''.gsap-hero-image-container'' = None \<longrightarrow> heroSection doc = []) \<and>
   (\<forall>t i. querySelector doc ''.gsap-hero-text-content'' = Some t \<and>
          querySelector doc ''.gsap-hero-image-container'' = Some i \<and>
          querySelector doc ''.gsap-hero-trusted-by'' = None \<longrightarrow>
      heroSection doc =
        [GsapSet (ElemList [t, i]) [(''autoAlpha'', JNum 0), (''y'', JNum 30)],
         GsapTimeline [(''delay'', JNum 0.3)],
         TimelineTo (Elem t)
           [(''autoAlpha'', JNum 1), (''y'', JNum 0), (''duration'', JNum 0.6),
            (''ease'', JStr ''power2.out'')] AtEnd,
         TimelineTo (Elem i)
           [(''autoAlpha'', JNum 1), (''y'', JNum 0), (''duration'', JNum 0.6),
            (''ease'', JStr ''power2.out'')] (MinusEq 0.4)])"
  by (auto simp: heroSection_def Let_def List.map_filter_simps split: option.splits)

theorem hero_needs_text_and_image_witness:
  "heroSection blank_page = [] \<and>
   heroSection text_only_page = [] \<and>
   heroSection hero_pair_page =
     [GsapSet (ElemList [5, 6]) [(''autoAlpha'', JNum 0), (''y'', JNum 30)],
      GsapTimeline [(''delay'', JNum 0.3)],
      TimelineTo (Elem 5)
        [(''autoAlpha'', JNum 1), (''y'', JNum 0), (''duration'', JNum 0.6),
         (''ease'', JStr ''power2.out'')] AtEnd,
      TimelineTo (Elem 6)
        [(''autoAlpha'', JNum 1), (''y'', JNum 0), (''duration'', JNum 0.6),
         (''ease'', JStr ''power2.out'')] (MinusEq 0.4)]"
proof -
  have t: "querySelector text_only_page ''.gsap-hero-text-content'' = Some 5"
   and i: "querySelector text_only_page ''.gsap-hero-image-container'' = None"
   and tb: "querySelector text_only_page ''.gsap-hero-trusted-by'' = Some 7"
    by (simp_all add: querySelector_def text_only_page_def)
  have pt: "querySelector hero_pair_page ''.gsap-hero-text-content'' = Some 5"
   and pi: "querySelector hero_pair_page ''.gsap-hero-image-container'' = Some 6"
   and ptb: "querySelector hero_pair_page ''.gsap-hero-trusted-by'' = None"
    by (simp_all add: querySelector_def hero_pair_page_def)
  have b: "querySelector blank_page ''.gsap-hero-text-content'' = None"
    by (simp add: querySelector_def blank_page_def)
  from hero_needs_text_and_image [of blank_page] b
  have 1: "heroSection blank_page = []" by blast
  from hero_needs_text_and_image [of text_only_page] i
  have 2: "heroSection text_only_page = []" by blast
  from hero_needs_text_and_image [of hero_pair_page] pt pi ptb
  have 3: "heroSection hero_pair_page =
     [GsapSet (ElemList [5, 6]) [(''autoAlpha'', JNum 0), (''y'', JNum 30)],
      GsapTimeline [(''delay'', JNum 0.3)],
      TimelineTo (Elem 5)
        [(''autoAlpha'', JNum 1), (''y'', JNum 0), (''duration'', JNum 0.6),
         (''ease'', JStr ''power2.out'')] AtEnd,
      TimelineTo (Elem 6)
        [(''autoAlpha'', JNum 1), (''y'', JNum 0), (''duration'', JNum 0.6),
         (''ease'', JStr ''power2.out'')] (MinusEq 0.4)]"
    by blast
  from 1 2 3 show ?thesis by blast
qed

text \<open>
  C6. The hero timeline is created with a delay of 0.3 seconds. Its tweens are added with
  the positions none, \<open>"-=0.4"\<close> and (when the trusted-by element exists) \<open>"-=0.3"\<close>,
  so that the text runs from 0 to 0.6, the image starts 0.4 seconds before the text
  ends and runs to 0.8, and the trusted-by tween starts 0.3 seconds before the image ends.
\<close>

theorem hero_timeline_offsets:
  assumes "querySelector doc ''.gsap-hero-text-content'' = Some t"
      and "querySelector doc ''.gsap-hero-image-container'' = Some i"
  shows "timeline_delay (heroSection doc) = Some 0.3 \<and>
         positions (heroSection doc) =
           AtEnd # MinusEq 0.4 #
           (case querySelector doc ''.gsap-hero-trusted-by'' of
              Some tb \<Rightarrow> [MinusEq 0.3]
            | None \<Rightarrow> []) \<and>
         schedule (heroSection doc) [] =
           (Elem t, 0, 0.6) # (Elem i, 0.6 - 0.4, 0.8) #
           (case querySelector doc ''.gsap-hero-trusted-by'' of
              Some tb \<Rightarrow> [(Elem tb, 0.8 - 0.3, 1)]
            | None \<Rightarrow> [])"
  using assms
  by (simp add: heroSection_def Let_def List.map_filter_simps timeline_end_def duration_of_def
           split: option.splits)

theorem hero_timeline_offsets_witness:
  "timeline_delay (heroSection sample_page) = Some 0.3 \<and>
   schedule (heroSection sample_page) [] =
     [(Elem 5, 0, 0.6), (Elem 6, 0.2, 0.8), (Elem 7, 0.5, 1)]"
proof -
  have t: "querySelector sample_page ''.gsap-hero-text-content'' = Some 5"
   and i: "querySelector sample_page ''.gsap-hero-image-container'' = Some 6"
   and tb: "querySelector sample_page ''.gsap-hero-trusted-by'' = Some 7"
    by (simp_all add: querySelector_def sample_page_def)
  from hero_timeline_offsets [OF t i] show ?thesis
    by (auto simp: tb)
qed

section \<open>The two listeners\<close>












section \<open>The scroll animators\<close>

lemma registered_triggers_append:
  "registered_triggers (xs @ ys) = registered_triggers xs @ registered_triggers ys"
  by (induction xs rule: registered_triggers.induct) simp_all

lemma one_shot_triggers_once:
  "one_shot_sequence doc d es cs \<Longrightarrow> cfg \<in> set (registered_triggers cs) \<Longrightarrow> is_once cfg"
  by (induction doc d es cs rule: one_shot_sequence.induct) auto

text \<open>A trigger that removes itself when it fires does not fire again.\<close>

lemma firings_at_most_registered:
  "(cfg \<in> set live \<longrightarrow> is_once cfg) \<Longrightarrow>
   count_list (firings es live) cfg \<le> count_list live cfg"
proof (induction es arbitrary: live)
  case Nil
  then show ?case by simp
next
  case (Cons e es)
  let ?rest = "filter (\<lambda>c. \<not> (watches e c \<and> is_once c)) live"
  have "cfg \<in> set ?rest \<longrightarrow> is_once cfg" using Cons.prems by simp
  then have ih: "count_list (firings es ?rest) cfg \<le> count_list ?rest cfg"
    by (rule Cons.IH)
  show ?case
  proof (cases "cfg \<in> set live")
    case True
    then have "is_once cfg" using Cons.prems by simp
    then show ?thesis using ih by (auto simp: count_list_filter split: if_splits)
  next
    case False
    then show ?thesis
      using ih by (auto simp: count_list_filter count_list_zero split: if_splits)
  qed
qed

lemma one_shot_service_cards:
  "one_shot_sequence doc 0.5 es
     (concat (map (\<lambda>(index, el).
        [GsapSet (Elem el) [(''autoAlpha'', JNum 0), (''y'', JNum 50)],
         ScrollTriggerCreate
           [(''trigger'', Elem el), (''start'', JStr ''top 85%''),
            (''end'', JStr ''bottom 15%''), (''once'', JBool True),
            (''onEnter'', Fn (ServiceCardEnter el index))]])
      (enumerate n es)))"
  by (induction es arbitrary: n) (simp_all add: watches_def is_once_def enter_tween_def)

lemma one_shot_featured_work:
  "one_shot_sequence doc 0.5 es
     (concat (map (\<lambda>(index, item).
        [GsapSet (Elem item)
           [(''autoAlpha'', JNum 0), (''y'', JNum 50), (''scale'', JNum 0.95)],
         ScrollTriggerCreate
           [(''trigger'', Elem item), (''start'', JStr ''top 85%''),
            (''once'', JBool True),
            (''onEnter'', Fn (FeaturedWorkEnter item index))]])
      (enumerate n es)))"
  by (induction es arbitrary: n) (simp_all add: watches_def is_once_def enter_tween_def)

lemma one_shot_testimonials:
  "one_shot_sequence doc 0.5 es
     (concat (map (\<lambda>(index, el).
        [GsapSet (Elem el) [(''autoAlpha'', JNum 0), (''y'', JNum 50)],
         ScrollTriggerCreate
           [(''trigger'', Elem el), (''start'', JStr ''top 85%''),
            (''once'', JBool True),
            (''onEnter'', Fn (TestimonialEnter el index))]])
      (enumerate n es)))"
  by (induction es arbitrary: n) (simp_all add: watches_def is_once_def enter_tween_def)

lemma one_shot_animateServiceCards:
  "one_shot_sequence doc 0.5 (toArray doc ''.gsap-service-card'') (animateServiceCards doc)"
  using one_shot_service_cards [of doc "toArray doc ''.gsap-service-card''" 0]
  by (simp add: animateServiceCards_def Let_def)

lemma one_shot_animateFeaturedWorkItems:
  "one_shot_sequence doc 0.5 (toArray doc ''.gsap-featured-work-item'')
     (animateFeaturedWorkItems doc)"
  using one_shot_featured_work [of doc "toArray doc ''.gsap-featured-work-item''" 0]
  by (simp add: animateFeaturedWorkItems_def Let_def)

lemma one_shot_animateCtaSection:
  "one_shot_sequence doc 0.6 (found (querySelector doc ''.gsap-cta-section''))
     (animateCtaSection doc)"
  by (simp add: animateCtaSection_def watches_def is_once_def enter_tween_def
           split: option.splits)

lemma one_shot_animateTestimonials:
  "one_shot_sequence doc 0.5 (toArray doc ''.gsap-testimonial-card'')
     (take (2 * length (toArray doc ''.gsap-testimonial-card'')) (animateTestimonials doc)) \<and>
   one_shot_sequence doc 0.6 (found (querySelector doc ''.gsap-testimonials-cta''))
     (drop (2 * length (toArray doc ''.gsap-testimonial-card'')) (animateTestimonials doc))"
  using one_shot_testimonials [of doc "toArray doc ''.gsap-testimonial-card''" 0]
  by (simp add: animateTestimonials_split length_concat_pairs
        watches_def is_once_def enter_tween_def split: option.splits)

lemma registered_triggers_pageLoadAnimation: "registered_triggers (pageLoadAnimation doc) = []"
  by (simp add: pageLoadAnimation_def split: option.splits)

lemma registered_triggers_heroSection: "registered_triggers (heroSection doc) = []"
  by (simp add: heroSection_def Let_def split: option.splits)

lemma registered_triggers_pageExitAnimation:
  "pageExitAnimation doc onComplete = Inr cs \<Longrightarrow> registered_triggers cs = []"
  by (auto simp: pageExitAnimation_def call_value_def split: option.splits if_splits)

lemma testimonial_triggers_once:
  assumes "cfg \<in> set (registered_triggers (animateTestimonials doc))"
  shows "is_once cfg"
proof -
  let ?n = "2 * length (toArray doc ''.gsap-testimonial-card'')"
  have "registered_triggers (animateTestimonials doc) =
          registered_triggers (take ?n (animateTestimonials doc)) @
          registered_triggers (drop ?n (animateTestimonials doc))"
    by (simp add: registered_triggers_append [symmetric])
  with assms have "cfg \<in> set (registered_triggers (take ?n (animateTestimonials doc))) \<or>
                   cfg \<in> set (registered_triggers (drop ?n (animateTestimonials doc)))"
    by auto
  then show ?thesis
    using one_shot_animateTestimonials [of doc] by (auto dest: one_shot_triggers_once)
qed

lemma page_triggers_once:
  assumes "cfg \<in> set (registered_triggers (page_load_calls doc))"
  shows "is_once cfg"
  using assms one_shot_animateServiceCards [of doc] one_shot_animateFeaturedWorkItems [of doc]
    one_shot_animateCtaSection [of doc]
  by (auto simp: page_load_calls_eq registered_triggers_append
        registered_triggers_pageLoadAnimation registered_triggers_heroSection
        dest: one_shot_triggers_once testimonial_triggers_once)

text \<open>
  C3, amended. Each of the four scroll animators (\<open>animateServiceCards\<close>,
  \<open>animateFeaturedWorkItems\<close>, \<open>animateTestimonials\<close>, \<open>animateCtaSection\<close>) is a
  one-shot sequence: for each element its selector finds it sets initial style
  properties, registers a trigger on that element with \<open>once: true\<close>, and on entry
  tweens the same properties of the same element over a fixed duration (0.5 seconds
  for cards and items, 0.6 for the two call-to-action elements); with no element it
  makes no call. No trigger of the page fires more often than it was registered.
  \<open>pageLoadAnimation\<close>, \<open>pageExitAnimation\<close> and the hero block register no trigger.
\<close>

theorem scroll_animators_one_shot:
  "one_shot_sequence doc 0.5 (toArray doc ''.gsap-service-card'') (animateServiceCards doc) \<and>
   one_shot_sequence doc 0.5 (toArray doc ''.gsap-featured-work-item'')
     (animateFeaturedWorkItems doc) \<and>
   one_shot_sequence doc 0.5 (toArray doc ''.gsap-testimonial-card'')
     (take (2 * length (toArray doc ''.gsap-testimonial-card'')) (animateTestimonials doc)) \<and>
   one_shot_sequence doc 0.6 (found (querySelector doc ''.gsap-testimonials-cta''))
     (drop (2 * length (toArray doc ''.gsap-testimonial-card'')) (animateTestimonials doc)) \<and>
   one_shot_sequence doc 0.6 (found (querySelector doc ''.gsap-cta-section''))
     (animateCtaSection doc) \<and>
   (\<forall>entered cfg.
      count_list (firings entered (registered_triggers (page_load_calls doc))) cfg
        \<le> count_list (registered_triggers (page_load_calls doc)) cfg) \<and>
   registered_triggers (pageLoadAnimation doc) = [] \<and>
   registered_triggers (heroSection doc) = [] \<and>
   (\<forall>onComplete cs. pageExitAnimation doc onComplete = Inr cs \<longrightarrow> registered_triggers cs = [])"
proof -
  have "count_list (firings entered (registered_triggers (page_load_calls doc))) cfg
          \<le> count_list (registered_triggers (page_load_calls doc)) cfg" for entered cfg
    by (rule firings_at_most_registered) (simp add: page_triggers_once)
  then show ?thesis
    using one_shot_animateServiceCards [of doc] one_shot_animateFeaturedWorkItems [of doc]
      one_shot_animateTestimonials [of doc] one_shot_animateCtaSection [of doc]
      registered_triggers_pageLoadAnimation [of doc] registered_triggers_heroSection [of doc]
      registered_triggers_pageExitAnimation [of doc]
    by simp
qed

theorem scroll_animators_one_shot_witness:
  "one_shot_sequence sample_page 0.5 [2, 3, 4] (animateServiceCards sample_page) \<and>
   animateFeaturedWorkItems sample_page = [] \<and>
   animateCtaSection sample_page = [] \<and>
   count_list (firings [2, 3, 2, 2] (registered_triggers (page_load_calls sample_page)))
     [(''trigger'', Elem 2), (''start'', JStr ''top 85%''),
      (''end'', JStr ''bottom 15%''), (''once'', JBool True),
      (''onEnter'', Fn (ServiceCardEnter 2 0))] \<le> 1"
proof -
  have a: "toArray sample_page ''.gsap-service-card'' = [2, 3, 4]"
   and b: "toArray sample_page ''.gsap-featured-work-item'' = []"
   and c: "querySelector sample_page ''.gsap-cta-section'' = None"
    by (simp_all add: toArray_def querySelector_def sample_page_def)
  have d: "count_list (registered_triggers (page_load_calls sample_page))
     [(''trigger'', Elem 2), (''start'', JStr ''top 85%''),
      (''end'', JStr ''bottom 15%''), (''once'', JBool True),
      (''onEnter'', Fn (ServiceCardEnter 2 0))] = 1"
    by (simp add: page_load_calls_eq registered_triggers_append sample_service_cards
          registered_triggers_pageLoadAnimation registered_triggers_heroSection
          animateFeaturedWorkItems_def animateTestimonials_def animateCtaSection_def
          toArray_def querySelector_def sample_page_def)
  note all = scroll_animators_one_shot [of sample_page]
  have 1: "one_shot_sequence sample_page 0.5 [2, 3, 4] (animateServiceCards sample_page)"
    using all by (simp add: a)
  have 2: "animateFeaturedWorkItems sample_page = []"
    using all by (simp add: b)
  have 3: "animateCtaSection sample_page = []"
    using all by (simp add: c)
  have 4: "count_list (firings [2, 3, 2, 2] (registered_triggers (page_load_calls sample_page)))
     [(''trigger'', Elem 2), (''start'', JStr ''top 85%''),
      (''end'', JStr ''bottom 15%''), (''once'', JBool True),
      (''onEnter'', Fn (ServiceCardEnter 2 0))] \<le> 1"
    using all unfolding d [symmetric] by blast
  from 1 2 3 4 show ?thesis by blast
qed

text \<open>
  As first written, C3 spoke of each animation function. \<open>pageLoadAnimation\<close> animates
  \<open>#main-content\<close> at once, with no trigger: it is not a one-shot sequence in the
  sense above.
\<close>

theorem page_load_has_no_trigger_counterexample:
  "pageLoadAnimation sample_page =
     [GsapSet (Elem 1) [(''opacity'', JNum 0), (''y'', JNum 20)],
      GsapTo (Elem 1)
        [(''opacity'', JNum 1), (''y'', JNum 0), (''duration'', JNum 0.5),
         (''ease'', JStr ''power2.out'')]] \<and>
   registered_triggers (pageLoadAnimation sample_page) = [] \<and>
   \<not> one_shot_sequence sample_page 0.5 [1] (pageLoadAnimation sample_page)"
  by (simp add: pageLoadAnimation_def querySelector_def sample_page_def
        MAIN_CONTENT_SELECTOR_def)

text \<open>
  C10. When the matched element list is empty, \<open>animateServiceCards\<close> and
  \<open>animateFeaturedWorkItems\<close> return at once: they make no library call, so no initial
  style is set and no scroll trigger is created.
\<close>

theorem empty_list_returns_early:
  "(toArray doc ''.gsap-service-card'' = [] \<longrightarrow> animateServiceCards doc = []) \<and>
   (toArray doc ''.gsap-featured-work-item'' = [] \<longrightarrow> animateFeaturedWorkItems doc = [])"
  by (simp add: animateServiceCards_def animateFeaturedWorkItems_def)

theorem empty_list_returns_early_witness:
  "animateServiceCards blank_page = [] \<and> animateFeaturedWorkItems blank_page = []"
  using empty_list_returns_early [of blank_page]
  by (simp add: toArray_def blank_page_def)

section \<open>Absent elements\<close>

lemma testimonials_without_cards:
  "doc ''.gsap-testimonial-card'' = [] \<Longrightarrow>
   one_shot_sequence doc 0.6 (found (querySelector doc ''.gsap-testimonials-cta''))
     (animateTestimonials doc)"
  using one_shot_animateTestimonials [of doc] by (simp add: toArray_def)

lemma testimonials_without_cta:
  assumes "doc ''.gsap-testimonials-cta'' = []"
  shows "one_shot_sequence doc 0.5 (doc ''.gsap-testimonial-card'') (animateTestimonials doc)"
proof -
  have "drop (2 * length (toArray doc ''.gsap-testimonial-card'')) (animateTestimonials doc) = []"
    using assms by (simp add: animateTestimonials_split length_concat_pairs querySelector_def)
  then have "take (2 * length (toArray doc ''.gsap-testimonial-card'')) (animateTestimonials doc)
               = animateTestimonials doc"
    by (metis append_Nil2 append_take_drop_id)
  then show ?thesis using one_shot_animateTestimonials [of doc] by (simp add: toArray_def)
qed

text \<open>
  C2, amended. Every function tests each element (or element list) it has queried before
  it acts on it, and when the element is absent it makes no library call for it and
  raises no exception of its own. With its only element absent a function does nothing
  at all, except \<open>pageExitAnimation\<close>: it calls a function-valued \<open>onComplete\<close>, and
  an exception of that call leaves it. \<open>animateTestimonials\<close> and the hero block
  query several elements: without cards \<open>animateTestimonials\<close> is the one-shot
  sequence of the testimonials CTA alone, without the CTA that of the cards alone, and
  without the trusted-by element the hero block makes exactly its calls on hero text
  and hero image (or none, when one of those is missing too).
\<close>

theorem absent_element_is_skipped:
  "(doc MAIN_CONTENT_SELECTOR = [] \<longrightarrow>
      pageLoadAnimation doc = [] \<and>
      (typeof onComplete \<noteq> ''function'' \<longrightarrow> pageExitAnimation doc onComplete = Inr []) \<and>
      (typeof onComplete = ''function'' \<longrightarrow>
         pageExitAnimation doc onComplete =
           (case callee_raises onComplete of
              None \<Rightarrow> Inr [Invoke onComplete]
            | Some e \<Rightarrow> Inl e))) \<and>
   (doc ''.gsap-service-card'' = [] \<longrightarrow> animateServiceCards doc = []) \<and>
   (doc ''.gsap-featured-work-item'' = [] \<longrightarrow> animateFeaturedWorkItems doc = []) \<and>
   (doc ''.gsap-testimonial-card'' = [] \<longrightarrow>
      one_shot_sequence doc 0.6 (found (querySelector doc ''.gsap-testimonials-cta''))
        (animateTestimonials doc)) \<and>
   (doc ''.gsap-testimonials-cta'' = [] \<longrightarrow>
      one_shot_sequence doc 0.5 (doc ''.gsap-testimonial-card'') (animateTestimonials doc)) \<and>
   (doc ''.gsap-testimonial-card'' = [] \<and> doc ''.gsap-testimonials-cta'' = [] \<longrightarrow>
      animateTestimonials doc = []) \<and>
   (doc ''.gsap-cta-section'' = [] \<longrightarrow> animateCtaSection doc = []) \<and>
   (doc ''.gsap-hero-text-content'' = [] \<or> doc ''.gsap-hero-image-container'' = [] \<longrightarrow>
      heroSection doc = []) \<and>
   (doc ''.gsap-hero-trusted-by'' = [] \<longrightarrow>
      heroSection doc =
        (case (querySelector doc ''.gsap-hero-text-content'',
               querySelector doc ''.gsap-hero-image-container'') of
           (Some t, Some i) \<Rightarrow>
             [GsapSet (ElemList [t, i]) [(''autoAlpha'', JNum 0), (''y'', JNum 30)],
              GsapTimeline [(''delay'', JNum 0.3)],
              TimelineTo (Elem t)
                [(''autoAlpha'', JNum 1), (''y'', JNum 0), (''duration'', JNum 0.6),
                 (''ease'', JStr ''power2.out'')] AtEnd,
              TimelineTo (Elem i)
                [(''autoAlpha'', JNum 1), (''y'', JNum 0), (''duration'', JNum 0.6),
                 (''ease'', JStr ''power2.out'')] (MinusEq 0.4)]
         | other \<Rightarrow> []))"
proof -
  have main: "doc MAIN_CONTENT_SELECTOR = [] \<longrightarrow>
      pageLoadAnimation doc = [] \<and>
      (typeof onComplete \<noteq> ''function'' \<longrightarrow> pageExitAnimation doc onComplete = Inr []) \<and>
      (typeof onComplete = ''function'' \<longrightarrow>
         pageExitAnimation doc onComplete =
           (case callee_raises onComplete of
              None \<Rightarrow> Inr [Invoke onComplete]
            | Some e \<Rightarrow> Inl e))"
    by (simp add: pageLoadAnimation_def pageExitAnimation_def querySelector_def call_value_def)
  have cards: "doc ''.gsap-service-card'' = [] \<longrightarrow> animateServiceCards doc = []"
    by (simp add: animateServiceCards_def toArray_def)
  have items: "doc ''.gsap-featured-work-item'' = [] \<longrightarrow> animateFeaturedWorkItems doc = []"
    by (simp add: animateFeaturedWorkItems_def toArray_def)
  have t1: "doc ''.gsap-testimonial-card'' = [] \<longrightarrow>
      one_shot_sequence doc 0.6 (found (querySelector doc ''.gsap-testimonials-cta''))
        (animateTestimonials doc)"
    using testimonials_without_cards [of doc] by blast
  have t2: "doc ''.gsap-testimonials-cta'' = [] \<longrightarrow>
      one_shot_sequence doc 0.5 (doc ''.gsap-testimonial-card'') (animateTestimonials doc)"
    using testimonials_without_cta [of doc] by blast
  have t3: "doc ''.gsap-testimonial-card'' = [] \<and> doc ''.gsap-testimonials-cta'' = [] \<longrightarrow>
      animateTestimonials doc = []"
    by (simp add: animateTestimonials_def toArray_def querySelector_def)
  have cta: "doc ''.gsap-cta-section'' = [] \<longrightarrow> animateCtaSection doc = []"
    by (simp add: animateCtaSection_def querySelector_def)
  have hero: "doc ''.gsap-hero-text-content'' = [] \<or> doc ''.gsap-hero-image-container'' = [] \<longrightarrow>
      heroSection doc = []"
    by (auto simp: heroSection_def querySelector_def Let_def split: option.splits)
  have tb: "doc ''.gsap-hero-trusted-by'' = [] \<longrightarrow>
      heroSection doc =
        (case (querySelector doc ''.gsap-hero-text-content'',
               querySelector doc ''.gsap-hero-image-container'') of
           (Some t, Some i) \<Rightarrow>
             [GsapSet (ElemList [t, i]) [(''autoAlpha'', JNum 0), (''y'', JNum 30)],
              GsapTimeline [(''delay'', JNum 0.3)],
              TimelineTo (Elem t)
                [(''autoAlpha'', JNum 1), (''y'', JNum 0), (''duration'', JNum 0.6),
                 (''ease'', JStr ''power2.out'')] AtEnd,
              TimelineTo (Elem i)
                [(''autoAlpha'', JNum 1), (''y'', JNum 0), (''duration'', JNum 0.6),
                 (''ease'', JStr ''power2.out'')] (MinusEq 0.4)]
         | other \<Rightarrow> [])"
    by (auto simp: heroSection_def Let_def List.map_filter_simps querySelector_Nil
          split: option.splits)
  from main cards items t1 t2 t3 cta hero tb show ?thesis by blast
qed

theorem absent_element_is_skipped_witness:
  "pageLoadAnimation blank_page = [] \<and>
   pageExitAnimation blank_page (JNum 1) = Inr [] \<and>
   pageExitAnimation blank_page (ExternFn 4 Returns) = Inr [Invoke (ExternFn 4 Returns)] \<and>
   pageExitAnimation blank_page (ExternFn 4 Throws) = Inl (CalleeThrew 4) \<and>
   animateServiceCards blank_page = [] \<and>
   animateFeaturedWorkItems blank_page = [] \<and>
   animateTestimonials blank_page = [] \<and>
   animateCtaSection blank_page = [] \<and>
   heroSection text_only_page = [] \<and>
   heroSection hero_pair_page =
     [GsapSet (ElemList [5, 6]) [(''autoAlpha'', JNum 0), (''y'', JNum 30)],
      GsapTimeline [(''delay'', JNum 0.3)],
      TimelineTo (Elem 5)
        [(''autoAlpha'', JNum 1), (''y'', JNum 0), (''duration'', JNum 0.6),
         (''ease'', JStr ''power2.out'')] AtEnd,
      TimelineTo (Elem 6)
        [(''autoAlpha'', JNum 1), (''y'', JNum 0), (''duration'', JNum 0.6),
         (''ease'', JStr ''power2.out'')] (MinusEq 0.4)] \<and>
   one_shot_sequence cta_only_page 0.6 [10] (animateTestimonials cta_only_page) \<and>
   one_shot_sequence sample_page 0.5 [8, 9] (animateTestimonials sample_page)"
proof -
  note blank_num = absent_element_is_skipped [of blank_page "JNum 1"]
  note blank_ret = absent_element_is_skipped [of blank_page "ExternFn 4 Returns"]
  note blank_thr = absent_element_is_skipped [of blank_page "ExternFn 4 Throws"]
  note text_only = absent_element_is_skipped [of text_only_page Undefined]
  note pair = absent_element_is_skipped [of hero_pair_page Undefined]
  note cta_only = absent_element_is_skipped [of cta_only_page Undefined]
  note sample = absent_element_is_skipped [of sample_page Undefined]
  have 1: "pageLoadAnimation blank_page = [] \<and>
           pageExitAnimation blank_page (JNum 1) = Inr [] \<and>
           animateServiceCards blank_page = [] \<and>
           animateFeaturedWorkItems blank_page = [] \<and>
           animateTestimonials blank_page = [] \<and>
           animateCtaSection blank_page = []"
    using blank_num by (simp add: blank_page_def)
  have 2: "pageExitAnimation blank_page (ExternFn 4 Returns) = Inr [Invoke (ExternFn 4 Returns)]"
    using blank_ret by (simp add: blank_page_def)
  have 3: "pageExitAnimation blank_page (ExternFn 4 Throws) = Inl (CalleeThrew 4)"
    using blank_thr by (simp add: blank_page_def)
  have "text_only_page ''.gsap-hero-image-container'' = []"
    by (simp add: text_only_page_def)
  with text_only have 4: "heroSection text_only_page = []" by blast
  have "hero_pair_page ''.gsap-hero-trusted-by'' = []"
   and "querySelector hero_pair_page ''.gsap-hero-text-content'' = Some 5"
   and "querySelector hero_pair_page ''.gsap-hero-image-container'' = Some 6"
    by (simp_all add: hero_pair_page_def querySelector_def)
  with pair have 5: "heroSection hero_pair_page =
     [GsapSet (ElemList [5, 6]) [(''autoAlpha'', JNum 0), (''y'', JNum 30)],
      GsapTimeline [(''delay'', JNum 0.3)],
      TimelineTo (Elem 5)
        [(''autoAlpha'', JNum 1), (''y'', JNum 0), (''duration'', JNum 0.6),
         (''ease'', JStr ''power2.out'')] AtEnd,
      TimelineTo (Elem 6)
        [(''autoAlpha'', JNum 1), (''y'', JNum 0), (''duration'', JNum 0.6),
         (''ease'', JStr ''power2.out'')] (MinusEq 0.4)]"
    by simp
  have "cta_only_page ''.gsap-testimonial-card'' = []"
   and c: "found (querySelector cta_only_page ''.gsap-testimonials-cta'') = [10]"
    by (simp_all add: cta_only_page_def querySelector_def)
  with cta_only have 6: "one_shot_sequence cta_only_page 0.6 [10]
                           (animateTestimonials cta_only_page)"
    unfolding c [symmetric] by blast
  have "sample_page ''.gsap-testimonials-cta'' = []"
   and s: "sample_page ''.gsap-testimonial-card'' = [8, 9]"
    by (simp_all add: sample_page_def)
  with sample have 7: "one_shot_sequence sample_page 0.5 [8, 9]
                         (animateTestimonials sample_page)"
    unfolding s [symmetric] by blast
  from 1 2 3 4 5 6 7 show ?thesis by blast
qed

text \<open>
  As first written, C2 asked for a no-op in every function. \<open>pageExitAnimation\<close> is
  the exception: with no \<open>#main-content\<close> it calls a function-valued \<open>onComplete\<close>.
\<close>

theorem absent_element_calls_back_counterexample:
  "blank_page MAIN_CONTENT_SELECTOR = [] \<and>
   pageExitAnimation blank_page (ExternFn 0 Returns) = Inr [Invoke (ExternFn 0 Returns)] \<and>
   pageExitAnimation blank_page (ExternFn 0 Returns) \<noteq> Inr []"
  by (simp add: blank_page_def pageExitAnimation_def querySelector_def)

section \<open>Configuration objects\<close>

lemma keys_pageLoadAnimation:
  "list_all (\<lambda>c. keys_within (keys_of_kind c) c) (pageLoadAnimation doc)"
  by (simp add: pageLoadAnimation_def keys_within_def setting_keys_def split: option.splits)

lemma keys_heroSection: "list_all (\<lambda>c. keys_within (keys_of_kind c) c) (heroSection doc)"
  by (simp add: heroSection_def Let_def keys_within_def setting_keys_def split: option.splits)

lemma keys_animateServiceCards:
  "list_all (\<lambda>c. keys_within (keys_of_kind c) c) (animateServiceCards doc)"
  by (auto simp: animateServiceCards_def Let_def list_all_concat_map keys_within_def
        setting_keys_def trigger_keys_def list_all_iff)

lemma keys_animateFeaturedWorkItems:
  "list_all (\<lambda>c. keys_within (keys_of_kind c) c) (animateFeaturedWorkItems doc)"
  by (auto simp: animateFeaturedWorkItems_def Let_def list_all_concat_map keys_within_def
        setting_keys_def trigger_keys_def list_all_iff)

lemma keys_animateTestimonials:
  "list_all (\<lambda>c. keys_within (keys_of_kind c) c) (animateTestimonials doc)"
  by (auto simp: animateTestimonials_def Let_def list_all_concat_map keys_within_def
        setting_keys_def trigger_keys_def list_all_iff split: option.splits)

lemma keys_animateCtaSection:
  "list_all (\<lambda>c. keys_within (keys_of_kind c) c) (animateCtaSection doc)"
  by (simp add: animateCtaSection_def keys_within_def setting_keys_def trigger_keys_def
        split: option.splits)

lemma keys_pageExitAnimation:
  "pageExitAnimation doc onComplete = Inr cs \<Longrightarrow>
   list_all (keys_within (''onComplete'' # setting_keys)) cs"
  by (auto simp: pageExitAnimation_def call_value_def keys_within_def setting_keys_def
        split: option.splits if_splits)

lemma keys_closures:
  "cl \<noteq> BeforeSwapListener \<Longrightarrow> run_closure doc cl = Inr cs \<Longrightarrow>
   list_all (\<lambda>c. keys_within (keys_of_kind c) c) cs"
proof (cases cl)
  case PageLoadListener
  assume "run_closure doc cl = Inr cs"
  with PageLoadListener show ?thesis
    using keys_pageLoadAnimation [of doc] keys_heroSection [of doc]
      keys_animateServiceCards [of doc] keys_animateFeaturedWorkItems [of doc]
      keys_animateTestimonials [of doc] keys_animateCtaSection [of doc]
    by auto
next
  case (ExitComplete v)
  assume "run_closure doc cl = Inr cs"
  with ExitComplete show ?thesis
    by (auto simp: keys_within_def call_value_def split: if_splits option.splits)
qed (auto simp: keys_within_def setting_keys_def)

lemma delays_service_cards:
  "List.map_filter (entrance_delay doc)
     (concat (map (\<lambda>(index, el).
        [GsapSet (Elem el) [(''autoAlpha'', JNum 0), (''y'', JNum 50)],
         ScrollTriggerCreate
           [(''trigger'', Elem el), (''start'', JStr ''top 85%''),
            (''end'', JStr ''bottom 15%''), (''once'', JBool True),
            (''onEnter'', Fn (ServiceCardEnter el index))]])
      (enumerate n es))) =
   map (\<lambda>i. js_times (real i) 0.1) (map fst (enumerate n es))"
  by (induction es arbitrary: n)
     (simp_all add: List.map_filter_simps enter_tween_def del: map_fst_enumerate)

lemma delays_featured_work:
  "List.map_filter (entrance_delay doc)
     (concat (map (\<lambda>(index, item).
        [GsapSet (Elem item)
           [(''autoAlpha'', JNum 0), (''y'', JNum 50), (''scale'', JNum 0.95)],
         ScrollTriggerCreate
           [(''trigger'', Elem item), (''start'', JStr ''top 85%''),
            (''once'', JBool True),
            (''onEnter'', Fn (FeaturedWorkEnter item index))]])
      (enumerate n es))) =
   map (\<lambda>i. js_times (real i) 0.1) (map fst (enumerate n es))"
  by (induction es arbitrary: n)
     (simp_all add: List.map_filter_simps enter_tween_def del: map_fst_enumerate)

lemma delays_testimonials:
  "List.map_filter (entrance_delay doc)
     (concat (map (\<lambda>(index, el).
        [GsapSet (Elem el) [(''autoAlpha'', JNum 0), (''y'', JNum 50)],
         ScrollTriggerCreate
           [(''trigger'', Elem el), (''start'', JStr ''top 85%''),
            (''once'', JBool True),
            (''onEnter'', Fn (TestimonialEnter el index))]])
      (enumerate n es))) =
   map (\<lambda>i. js_times (real i) 0.15) (map fst (enumerate n es))"
  by (induction es arbitrary: n)
     (simp_all add: List.map_filter_simps enter_tween_def del: map_fst_enumerate)

lemma delays_animateServiceCards:
  "List.map_filter (entrance_delay doc) (animateServiceCards doc) =
     map (\<lambda>i. js_times (real i) 0.1) [0..<length (toArray doc ''.gsap-service-card'')]"
  using delays_service_cards [of doc 0 "toArray doc ''.gsap-service-card''"]
  by (simp add: animateServiceCards_def Let_def List.map_filter_simps)

lemma delays_animateFeaturedWorkItems:
  "List.map_filter (entrance_delay doc) (animateFeaturedWorkItems doc) =
     map (\<lambda>i. js_times (real i) 0.1) [0..<length (toArray doc ''.gsap-featured-work-item'')]"
  using delays_featured_work [of doc 0 "toArray doc ''.gsap-featured-work-item''"]
  by (simp add: animateFeaturedWorkItems_def Let_def List.map_filter_simps)

lemma delays_animateTestimonials:
  "List.map_filter (entrance_delay doc) (animateTestimonials doc) =
     map (\<lambda>i. js_times (real i) 0.15) [0..<length (toArray doc ''.gsap-testimonial-card'')]"
  using delays_testimonials [of doc 0 "toArray doc ''.gsap-testimonial-card''"]
  by (simp add: animateTestimonials_split map_filter_append List.map_filter_simps
        enter_tween_def split: option.splits)

text \<open>The delays of the first four elements.\<close>

lemma js_times_zero: "js_times 0 c = 0"
  by (simp add: js_times_def double_of_def)

lemma double_of_one: "double_of 1 = 1"
proof -
  have "bitlen 1 = 1" by code_simp
  then show ?thesis by (simp add: double_of_def ulp_def round_even_def Let_def)
qed

lemma double_of_two: "double_of 2 = 2"
proof -
  have "bitlen 2 = 2" by code_simp
  then show ?thesis by (simp add: double_of_def ulp_def round_even_def Let_def)
qed

lemma one_tenth: "js_times 1 0.1 = 3602879701896397 / 2 ^ 55"
proof -
  have "bitlen 9 = 4" by code_simp
  then show ?thesis
    unfolding js_times_def double_of_tenth double_of_one
    by (simp add: double_of_def ulp_def round_even_def Let_def)
qed

lemma two_tenths: "js_times 2 0.1 = 3602879701896397 / 2 ^ 54"
proof -
  have "bitlen 4 = 3" by code_simp
  then show ?thesis
    unfolding js_times_def double_of_tenth double_of_two
    by (simp add: double_of_def ulp_def round_even_def Let_def)
qed

lemma three_twentieths: "js_times 1 0.15 = 5404319552844595 / 2 ^ 55"
proof -
  have "bitlen 6 = 3" by code_simp
  then show ?thesis
    unfolding js_times_def double_of_fifteen_hundredths double_of_one
    by (simp add: double_of_def ulp_def round_even_def Let_def)
qed

lemma six_twentieths: "js_times 2 0.15 = 5404319552844595 / 2 ^ 54"
proof -
  have "bitlen 3 = 2" by code_simp
  then show ?thesis
    unfolding js_times_def double_of_fifteen_hundredths double_of_two
    by (simp add: double_of_def ulp_def round_even_def Let_def)
qed

text \<open>
  C7, amended. Every configuration object the script passes to \<open>gsap.set\<close>,
  \<open>gsap.to\<close>, \<open>gsap.timeline\<close> or \<open>timeline.to\<close> has only the keys opacity,
  autoAlpha, y, scale, duration, ease and delay, with one exception: the page-exit tween
  also carries an \<open>onComplete\<close> callback. The objects passed to
  \<open>ScrollTrigger.create\<close> have only the keys trigger, start, end, once and onEnter.
  For the list animators the delay of the tween of the element at index \<open>i\<close> is the
  binary64 product of \<open>i\<close> and 0.1 for service cards and featured work items, and of
  \<open>i\<close> and 0.15 for testimonial cards: it is \<open>i * 0.1\<close> (\<open>i * 0.15\<close>) up to a
  relative rounding error of \<open>2^-51\<close>, and in a list of at most \<open>2^32\<close> elements the
  delays increase strictly with the index.
\<close>

theorem animation_configurations:
  "(\<forall>cl cs. cl \<noteq> BeforeSwapListener \<and> run_closure doc cl = Inr cs \<longrightarrow>
             list_all (\<lambda>c. keys_within (keys_of_kind c) c) cs) \<and>
   (\<forall>cs. pageExitAnimation doc onComplete = Inr cs \<longrightarrow>
         list_all (keys_within (''onComplete'' # setting_keys)) cs) \<and>
   List.map_filter (entrance_delay doc) (animateServiceCards doc) =
     map (\<lambda>i. js_times (real i) 0.1) [0..<length (toArray doc ''.gsap-service-card'')] \<and>
   List.map_filter (entrance_delay doc) (animateFeaturedWorkItems doc) =
     map (\<lambda>i. js_times (real i) 0.1) [0..<length (toArray doc ''.gsap-featured-work-item'')] \<and>
   List.map_filter (entrance_delay doc) (animateTestimonials doc) =
     map (\<lambda>i. js_times (real i) 0.15) [0..<length (toArray doc ''.gsap-testimonial-card'')] \<and>
   (\<forall>i. \<bar>js_times (real i) 0.1 - real i * 0.1\<bar> \<le> real i * 0.1 / 2 ^ 51) \<and>
   (\<forall>i. \<bar>js_times (real i) 0.15 - real i * 0.15\<bar> \<le> real i * 0.15 / 2 ^ 51) \<and>
   (length (toArray doc ''.gsap-service-card'') \<le> 2 ^ 32 \<longrightarrow>
      sorted_wrt (<) (List.map_filter (entrance_delay doc) (animateServiceCards doc))) \<and>
   (length (toArray doc ''.gsap-featured-work-item'') \<le> 2 ^ 32 \<longrightarrow>
      sorted_wrt (<) (List.map_filter (entrance_delay doc) (animateFeaturedWorkItems doc))) \<and>
   (length (toArray doc ''.gsap-testimonial-card'') \<le> 2 ^ 32 \<longrightarrow>
      sorted_wrt (<) (List.map_filter (entrance_delay doc) (animateTestimonials doc)))"
proof -
  have keys: "\<forall>cl cs. cl \<noteq> BeforeSwapListener \<and> run_closure doc cl = Inr cs \<longrightarrow>
             list_all (\<lambda>c. keys_within (keys_of_kind c) c) cs"
    using keys_closures by blast
  have exit: "\<forall>cs. pageExitAnimation doc onComplete = Inr cs \<longrightarrow>
         list_all (keys_within (''onComplete'' # setting_keys)) cs"
    using keys_pageExitAnimation by blast
  have c1: "\<forall>i. \<bar>js_times (real i) 0.1 - real i * 0.1\<bar> \<le> real i * 0.1 / 2 ^ 51"
    using js_times_close [of "real _" "0.1"] by simp
  have c2: "\<forall>i. \<bar>js_times (real i) 0.15 - real i * 0.15\<bar> \<le> real i * 0.15 / 2 ^ 51"
    using js_times_close [of "real _" "0.15"] by simp
  have s1: "n \<le> 2 ^ 32 \<longrightarrow> sorted_wrt (<) (map (\<lambda>i. js_times (real i) 0.1) [0..<n])" for n
    using staggered_delays_increase [of n "0.1"] by simp
  have s2: "n \<le> 2 ^ 32 \<longrightarrow> sorted_wrt (<) (map (\<lambda>i. js_times (real i) 0.15) [0..<n])" for n
    using staggered_delays_increase [of n "0.15"] by simp
  show ?thesis
    unfolding delays_animateServiceCards delays_animateFeaturedWorkItems
      delays_animateTestimonials
    using keys exit c1 c2 s1 s2 by blast
qed

theorem animation_configurations_witness:
  "List.map_filter (entrance_delay long_page) (animateServiceCards long_page) =
     [0, 3602879701896397 / 2 ^ 55, 3602879701896397 / 2 ^ 54, 5404319552844596 / 2 ^ 54] \<and>
   List.map_filter (entrance_delay long_page) (animateTestimonials long_page) =
     [0, 5404319552844595 / 2 ^ 55, 5404319552844595 / 2 ^ 54, 8106479329266892 / 2 ^ 54] \<and>
   sorted_wrt (<) (List.map_filter (entrance_delay long_page) (animateServiceCards long_page)) \<and>
   sorted_wrt (<) (List.map_filter (entrance_delay long_page) (animateTestimonials long_page)) \<and>
   list_all (\<lambda>c. keys_within (keys_of_kind c) c) (page_load_calls sample_page)"
proof -
  have a: "toArray long_page ''.gsap-service-card'' = [11, 12, 13, 14]"
   and b: "toArray long_page ''.gsap-testimonial-card'' = [15, 16, 17, 18]"
    by (simp_all add: toArray_def long_page_def)
  have u: "[0..<4] = [0, 1, 2, 3]"
    by (simp add: upt_rec)
  have r: "run_closure sample_page PageLoadListener = Inr (page_load_calls sample_page)"
    by (simp add: page_load_calls_def)
  note long = animation_configurations [of long_page Undefined]
  have t: "js_times 1 (1 / 10) = 3602879701896397 / 2 ^ 55"
          "js_times 2 (1 / 10) = 3602879701896397 / 2 ^ 54"
          "js_times 3 (1 / 10) = 5404319552844596 / 2 ^ 54"
    using one_tenth two_tenths three_tenths by simp_all
  from long have 1: "List.map_filter (entrance_delay long_page) (animateServiceCards long_page) =
     [0, 3602879701896397 / 2 ^ 55, 3602879701896397 / 2 ^ 54, 5404319552844596 / 2 ^ 54]"
    by (simp add: a u js_times_zero t)
  have n: "js_times 1 (3 / 20) = 5404319552844595 / 2 ^ 55"
          "js_times 2 (3 / 20) = 5404319552844595 / 2 ^ 54"
          "js_times 3 (3 / 20) = 8106479329266892 / 2 ^ 54"
    using three_twentieths six_twentieths nine_twentieths by simp_all
  from long have 2: "List.map_filter (entrance_delay long_page) (animateTestimonials long_page) =
     [0, 5404319552844595 / 2 ^ 55, 5404319552844595 / 2 ^ 54, 8106479329266892 / 2 ^ 54]"
    by (simp add: b u js_times_zero n)
  have la: "length (toArray long_page ''.gsap-service-card'') \<le> 2 ^ 32"
   and lb: "length (toArray long_page ''.gsap-testimonial-card'') \<le> 2 ^ 32"
    by (simp_all add: a b)
  from long la have 3:
    "sorted_wrt (<) (List.map_filter (entrance_delay long_page) (animateServiceCards long_page))"
    by blast
  from long lb have 4:
    "sorted_wrt (<) (List.map_filter (entrance_delay long_page) (animateTestimonials long_page))"
    by blast
  from animation_configurations [of sample_page Undefined] r
  have 5: "list_all (\<lambda>c. keys_within (keys_of_kind c) c) (page_load_calls sample_page)"
    by blast
  from 1 2 3 4 5 show ?thesis by blast
qed

text \<open>
  As first written, C7 allowed only the seven settings in any configuration object and
  gave the delay at index \<open>i\<close> as \<open>i * 0.1\<close>. The object that \<open>pageExitAnimation\<close>
  passes to \<open>gsap.to\<close> has the key \<open>onComplete\<close>, an object passed to
  \<open>ScrollTrigger.create\<close> has the key \<open>trigger\<close>, and the delay of the fourth
  service card is 0.30000000000000004, not 0.3.
\<close>

theorem configuration_claim_counterexample:
  "pageExitAnimation sample_page Undefined =
     Inr [GsapTo (Elem 1)
            [(''opacity'', JNum 0), (''y'', JNum (- 20)), (''duration'', JNum 0.3),
             (''ease'', JStr ''power2.in''),
             (''onComplete'', Fn (ExitComplete Undefined))]] \<and>
   \<not> keys_within setting_keys
       (GsapTo (Elem 1)
          [(''opacity'', JNum 0), (''y'', JNum (- 20)), (''duration'', JNum 0.3),
           (''ease'', JStr ''power2.in''),
           (''onComplete'', Fn (ExitComplete Undefined))]) \<and>
   \<not> list_all (keys_within setting_keys) (animateServiceCards sample_page) \<and>
   run_closure long_page (ServiceCardEnter 14 3) =
     Inr [GsapTo (Elem 14)
            [(''autoAlpha'', JNum 1), (''y'', JNum 0), (''duration'', JNum 0.5),
             (''delay'', JNum (5404319552844596 / 2 ^ 54)), (''ease'', JStr ''power2.out'')]] \<and>
   (5404319552844596 / 2 ^ 54 :: real) \<noteq> 3 * 0.1"
  by (simp add: pageExitAnimation_def querySelector_def sample_page_def
        MAIN_CONTENT_SELECTOR_def keys_within_def setting_keys_def sample_service_cards
        three_tenths)

end
